theory Spec2Isabelle
  imports Main
begin

section \<open>Policy types\<close>

text \<open>
  The shapes below are the ones \<^verbatim>\<open>policy.service.ts\<close> reads and writes.  Actions,
  resources and role names are the strings the service interpolates into cache keys and
  reason texts.  An optional string field is an \<open>option\<close>; \<open>None\<close> stands for every
  value JavaScript treats as false (\<^verbatim>\<open>undefined\<close>, \<^verbatim>\<open>null\<close>, the empty string), which the
  service never tells apart.
\<close>

type_synonym PolicyAction = string
type_synonym PolicyResource = string
type_synonym PolicyRole = string

text \<open>
  Modelled from the spec: the declaration of the effect type is missing; the data model
  gives a permission and a rule an effect that is one of allow and deny, and the service
  compares it with the literals \<^verbatim>\<open>'allow'\<close> and \<^verbatim>\<open>'deny'\<close> only.
\<close>

datatype PolicyEffect = Allow | Deny

record PolicySubject =
  subject_type :: string
  subject_id :: string

text \<open>The first argument of \<^verbatim>\<open>evaluate\<close> is \<^verbatim>\<open>PolicySubject | PolicyRole\<close>.\<close>

datatype SubjectArg = RoleName PolicyRole | SubjectObj PolicySubject

record PolicyContext =
  tenantId :: string
  workspaceId :: "string option"
  userId :: "int option"
  requestId :: string
  ip :: string
  ua :: string
  deviceId :: string

text \<open>
  A time bound is the number of milliseconds \<^verbatim>\<open>new Date(s)\<close> yields.  \<open>None\<close> is an
  absent bound or a string that does not parse: the comparison with the resulting
  \<^verbatim>\<open>NaN\<close> is false, so such a bound excludes no rule either.
\<close>

record TimeWindow =
  time_start :: "int option"
  time_end :: "int option"

record RuleConditions =
  cond_tenantId :: "string option"
  cond_workspaceId :: "string option"
  cond_userIds :: "int list option"
  cond_time :: "TimeWindow option"

record PolicyRule =
  rule_id :: string
  rule_effect :: PolicyEffect
  rule_subject :: PolicySubject
  rule_action :: PolicyAction
  rule_resource :: PolicyResource
  rule_conditions :: "RuleConditions option"
  rule_priority :: int

record Permission =
  perm_resource :: PolicyResource
  perm_actions :: "PolicyAction list"
  perm_effect :: PolicyEffect
  perm_scope :: string

record RolePermissions =
  permissions :: "Permission list"

text \<open>
  \<^verbatim>\<open>policyDoc.roles\<close> is an object indexed by role name; it is kept as the list of its
  own properties.
\<close>

record PolicyDocument =
  version :: int
  roles :: "(PolicyRole \<times> RolePermissions) list"
  rules :: "PolicyRule list"
  denyByDefault :: bool

record PolicyResult =
  allowed :: bool
  denied :: bool
  reason :: string
  matchedRuleId :: "string option"

text \<open>
  Modelled from the spec: the constant \<^verbatim>\<open>DEFAULT_POLICY\<close> is imported from a file
  that is not part of the sources; the document used when none is configured is
  version 1, empty role map, empty rule list, \<^verbatim>\<open>denyByDefault: true\<close>.
\<close>

definition DEFAULT_POLICY :: PolicyDocument where
  "DEFAULT_POLICY = \<lparr>version = 1, roles = [], rules = [], denyByDefault = True\<rparr>"

section \<open>Errors\<close>

text \<open>
  The errors a call can end with: \<open>TenantNotFound\<close> is the error
  \<^verbatim>\<open>new Error('Tenant not found')\<close> thrown by \<^verbatim>\<open>updatePolicyDocument\<close>,
  \<open>CacheUnavailable\<close> is a cache call that was rejected, and \<open>TypeError\<close> is the
  error JavaScript raises when a property of \<^verbatim>\<open>undefined\<close> is read.
\<close>

datatype Error = TenantNotFound | CacheUnavailable | TypeError

section \<open>RBAC evaluator\<close>

text \<open>
  \<^verbatim>\<open>policyDoc.roles\<close> is a plain object, so \<^verbatim>\<open>policyDoc.roles[role]\<close> finds the
  property the document gives the role and, when the document has none of that name,
  the member of \<^verbatim>\<open>Object.prototype\<close> of that name.  The members are functions (and
  \<^verbatim>\<open>__proto__\<close> is the prototype object): values that pass the test
  \<^verbatim>\<open>!rolePermissions\<close> and have no \<^verbatim>\<open>permissions\<close> property, so that
  \<^verbatim>\<open>rolePermissions.permissions.find\<close> raises a \<^verbatim>\<open>TypeError\<close>.
\<close>

definition objectPrototypeKeys :: "string list" where
  "objectPrototypeKeys =
    [''constructor'', ''__defineGetter__'', ''__defineSetter__'', ''hasOwnProperty'',
     ''__lookupGetter__'', ''__lookupSetter__'', ''isPrototypeOf'', ''propertyIsEnumerable'',
     ''toString'', ''valueOf'', ''__proto__'', ''toLocaleString'']"

definition evaluateRBAC ::
  "PolicySubject \<Rightarrow> PolicyAction \<Rightarrow> PolicyResource \<Rightarrow> PolicyContext \<Rightarrow> PolicyDocument
    \<Rightarrow> Error + PolicyResult" where
  "evaluateRBAC subject action resource context policyDoc =
    (if subject_type subject \<noteq> ''role'' then
       Inr \<lparr>allowed = False, denied = False,
            reason = ''Subject is not a role, skipping RBAC'', matchedRuleId = None\<rparr>
     else
       let role = subject_id subject in
       case map_of (roles policyDoc) role of
         None \<Rightarrow>
           if role \<in> set objectPrototypeKeys then Inl TypeError
           else
             Inr \<lparr>allowed = False, denied = False,
                  reason = ''Role '' @ role @ '' not found in policy'', matchedRuleId = None\<rparr>
       | Some rolePermissions \<Rightarrow>
          (case find (\<lambda>p. perm_resource p = resource) (permissions rolePermissions) of
             None \<Rightarrow>
               Inr \<lparr>allowed = False, denied = False,
                    reason = ''No permission defined for resource '' @ resource,
                    matchedRuleId = None\<rparr>
           | Some permission \<Rightarrow>
               if action \<notin> set (perm_actions permission) then
                 Inr \<lparr>allowed = False, denied = False,
                      reason = ''Action '' @ action @ '' not in allowed actions for resource ''
                        @ resource,
                      matchedRuleId = None\<rparr>
               else if perm_effect permission = Deny then
                 Inr \<lparr>allowed = False, denied = True,
                      reason = ''Deny effect for role '' @ role @ '' on '' @ resource,
                      matchedRuleId = None\<rparr>
               else if perm_scope permission = ''own'' then
                 (if workspaceId context \<noteq> None then
                    Inr \<lparr>allowed = True, denied = False,
                         reason = ''Allow effect (scope: own/workspace)'',
                         matchedRuleId = None\<rparr>
                  else
                    Inr \<lparr>allowed = False, denied = True,
                         reason = ''Scope mismatch (own scope requires workspace context)'',
                         matchedRuleId = None\<rparr>)
               else if perm_scope permission = ''workspace'' then
                 (if workspaceId context \<noteq> None then
                    Inr \<lparr>allowed = True, denied = False,
                         reason = ''Allow effect (scope: workspace)'', matchedRuleId = None\<rparr>
                  else
                    Inr \<lparr>allowed = False, denied = True,
                         reason =
                           ''Scope mismatch (workspace scope requires workspaceId in context)'',
                         matchedRuleId = None\<rparr>)
               else if perm_scope permission = ''all'' then
                 Inr \<lparr>allowed = True, denied = False,
                      reason = ''Allow effect (scope: all)'', matchedRuleId = None\<rparr>
               else
                 Inr \<lparr>allowed = False, denied = False,
                      reason = ''Unknown scope: '' @ perm_scope permission,
                      matchedRuleId = None\<rparr>))"

section \<open>ABAC evaluator\<close>

text \<open>
  The callback of \<^verbatim>\<open>policyDoc.rules.filter\<close>.  \<open>now\<close> is the value of \<^verbatim>\<open>new Date()\<close>
  in milliseconds.
\<close>

definition ruleMatches ::
  "int \<Rightarrow> PolicySubject \<Rightarrow> PolicyAction \<Rightarrow> PolicyResource \<Rightarrow> PolicyContext \<Rightarrow> PolicyRule
    \<Rightarrow> bool" where
  "ruleMatches now subject action resource context rule =
    (if rule_action rule \<noteq> action then False
     else if rule_resource rule \<noteq> resource then False
     else if subject_type (rule_subject rule) \<noteq> subject_type subject then False
     else if subject_id (rule_subject rule) \<noteq> subject_id subject then False
     else
       case rule_conditions rule of
         None \<Rightarrow> True
       | Some conditions \<Rightarrow>
           if (case cond_tenantId conditions of
                 None \<Rightarrow> False | Some t \<Rightarrow> t \<noteq> tenantId context) then False
           else if (case cond_workspaceId conditions of
                 None \<Rightarrow> False | Some ws \<Rightarrow> Some ws \<noteq> workspaceId context) then False
           else if (case cond_userIds conditions of
                 None \<Rightarrow> False
               | Some ids \<Rightarrow> ids \<noteq> [] \<and>
                   \<not> (case userId context of None \<Rightarrow> False | Some u \<Rightarrow> u \<in> set ids))
             then False
           else
             case cond_time conditions of
               None \<Rightarrow> True
             | Some window \<Rightarrow>
                 if (case time_start window of None \<Rightarrow> False | Some startTime \<Rightarrow> now < startTime)
                   then False
                 else if (case time_end window of None \<Rightarrow> False | Some endTime \<Rightarrow> now > endTime)
                   then False
                 else True)"

text \<open>The comparator handed to \<^verbatim>\<open>matchingRules.sort\<close>.\<close>

definition compareRules :: "PolicyRule \<Rightarrow> PolicyRule \<Rightarrow> int" where
  "compareRules a b =
    (if rule_effect a = Deny \<and> rule_effect b = Allow then - 1
     else if rule_effect a = Allow \<and> rule_effect b = Deny then 1
     else 0)"

text \<open>
  \<^verbatim>\<open>Array.prototype.sort\<close> with a comparator is a stable sort: an element moves in front
  of another one only when the comparator puts it strictly first.  It is modelled as the
  stable insertion sort; \<open>placeBy\<close> puts an element, which stood in front of all of
  \<open>sorted\<close>, behind exactly the elements the comparator ranks strictly before it.
\<close>

fun placeBy :: "('a \<Rightarrow> 'a \<Rightarrow> int) \<Rightarrow> 'a \<Rightarrow> 'a list \<Rightarrow> 'a list" where
  "placeBy cmp a [] = [a]"
| "placeBy cmp a (b # bs) = (if cmp a b > 0 then b # placeBy cmp a bs else a # b # bs)"

fun sortBy :: "('a \<Rightarrow> 'a \<Rightarrow> int) \<Rightarrow> 'a list \<Rightarrow> 'a list" where
  "sortBy cmp [] = []"
| "sortBy cmp (a # as) = placeBy cmp a (sortBy cmp as)"

text \<open>
  The loop \<^verbatim>\<open>for (const rule of matchingRules)\<close>: both branches on the effect return,
  and the statement after the loop is reached when the list is exhausted.
\<close>

fun firstVerdict :: "PolicyRule list \<Rightarrow> PolicyResult" where
  "firstVerdict [] =
     \<lparr>allowed = False, denied = False, reason = ''No ABAC rules matched'',
      matchedRuleId = None\<rparr>"
| "firstVerdict (rule # rest) =
     (case rule_effect rule of
        Deny \<Rightarrow>
          \<lparr>allowed = False, denied = True, reason = ''Denied by rule '' @ rule_id rule,
           matchedRuleId = Some (rule_id rule)\<rparr>
      | Allow \<Rightarrow>
          \<lparr>allowed = True, denied = False, reason = ''Allowed by rule '' @ rule_id rule,
           matchedRuleId = Some (rule_id rule)\<rparr>)"

definition matchingRules ::
  "int \<Rightarrow> PolicySubject \<Rightarrow> PolicyAction \<Rightarrow> PolicyResource \<Rightarrow> PolicyContext \<Rightarrow> PolicyDocument
    \<Rightarrow> PolicyRule list" where
  "matchingRules now subject action resource context policyDoc =
    filter (ruleMatches now subject action resource context) (rules policyDoc)"

definition evaluateABAC ::
  "int \<Rightarrow> PolicySubject \<Rightarrow> PolicyAction \<Rightarrow> PolicyResource \<Rightarrow> PolicyContext \<Rightarrow> PolicyDocument
    \<Rightarrow> PolicyResult" where
  "evaluateABAC now subject action resource context policyDoc =
    firstVerdict
      (sortBy compareRules (matchingRules now subject action resource context policyDoc))"

section \<open>Cache keys\<close>

definition POLICY_CACHE_PREFIX :: string where
  "POLICY_CACHE_PREFIX = ''policy:doc:''"

definition EVAL_CACHE_PREFIX :: string where
  "EVAL_CACHE_PREFIX = ''policy:eval:''"

definition CACHE_TTL :: int where
  "CACHE_TTL = 300"

definition getEvalCacheKey ::
  "PolicySubject \<Rightarrow> PolicyAction \<Rightarrow> PolicyResource \<Rightarrow> PolicyContext \<Rightarrow> string" where
  "getEvalCacheKey subject action resource context =
    (let subjectStr = subject_type subject @ '':'' @ subject_id subject;
         scopeStr = (case workspaceId context of Some ws \<Rightarrow> ws | None \<Rightarrow> ''global'')
     in EVAL_CACHE_PREFIX @ tenantId context @ '':'' @ subjectStr @ '':'' @ action @ '':''
          @ resource @ '':'' @ scopeStr)"

section \<open>Collaborators: tenant store, cache, audit sink\<close>


text \<open>
  \<^verbatim>\<open>Tenant.configuration\<close> is a JSON object; its \<^verbatim>\<open>policyEngine\<close> property is the policy
  document, the other properties are kept as they are.
\<close>

record Configuration =
  policyEngine :: "PolicyDocument option"
  otherSettings :: "(string \<times> string) list"

record Tenant =
  configuration :: "Configuration option"

datatype AuditPayload =
    DenyPayload PolicySubject PolicyAction PolicyResource PolicyContext string "string option"
  | UpdatePayload string int

text \<open>
  The argument of \<^verbatim>\<open>auditLog.logAction\<close>.  \<open>audit_actorUserId\<close> holds the string the
  service hands to \<^verbatim>\<open>parseInt\<close>.
\<close>

record AuditEntry =
  audit_actorId :: "int option"
  audit_actorUserId :: "string option"
  audit_action :: string
  audit_resource :: string
  audit_payload :: AuditPayload

text \<open>
  Modelled from the spec: \<^verbatim>\<open>RedisService\<close>, \<^verbatim>\<open>PrismaService\<close> and \<^verbatim>\<open>AuditLogService\<close>
  are not part of the sources.  The cache is a get / set-with-TTL / delete key-value
  store whose entries older than their TTL are treated as absent, and any call to it may
  fail with a cache I/O error; the audit sink is an append-only log; the store holds one
  tenant row per tenant id.  The store and the audit sink always answer here: only the
  cache has failures, and what is proved about a returned result is relative to that.

  Redis holds strings.  \<^verbatim>\<open>JSON.parse\<close> of \<^verbatim>\<open>JSON.stringify\<close> gives back the documents
  and results the service writes, so an entry holds the value itself, with the time at
  which it expires.  Keys starting with \<^verbatim>\<open>policy:doc:\<close> hold documents and keys starting
  with \<^verbatim>\<open>policy:eval:\<close> hold results; no key starts with both, so the key space is kept
  as two maps.  \<open>redisFaults\<close> is the fault schedule of the cache: each call to it takes
  the head of the list and fails when it is \<open>True\<close>; an empty schedule means that every
  call succeeds.
\<close>

record World =
  tenants :: "string \<Rightarrow> Tenant option"
  docCache :: "string \<Rightarrow> (PolicyDocument \<times> int) option"
  evalCache :: "string \<Rightarrow> (PolicyResult \<times> int) option"
  auditLog :: "AuditEntry list"
  clock :: int
  redisFaults :: "bool list"

text \<open>
  An asynchronous call yields an error (a rejected promise) or a value, and the world it
  leaves behind in both cases.  \<open>await\<close> runs the continuation on a value and passes an
  error on, as \<^verbatim>\<open>await\<close> outside any \<^verbatim>\<open>try\<close> block does.
\<close>

type_synonym 'a io = "(Error + 'a) \<times> World"

definition await :: "'a io \<Rightarrow> ('a \<Rightarrow> World \<Rightarrow> 'b io) \<Rightarrow> 'b io" where
  "await m k = (case m of (Inl e, w) \<Rightarrow> (Inl e, w) | (Inr x, w) \<Rightarrow> k x w)"

definition redisCall :: "World \<Rightarrow> unit io" where
  "redisCall w =
    (case redisFaults w of
       [] \<Rightarrow> (Inr (), w)
     | failed # later \<Rightarrow>
         (if failed then Inl CacheUnavailable else Inr (), w\<lparr>redisFaults := later\<rparr>))"

definition live :: "int \<Rightarrow> ('v \<times> int) option \<Rightarrow> 'v option" where
  "live now entry =
    (case entry of
       None \<Rightarrow> None
     | Some (v, expiresAt) \<Rightarrow> if now < expiresAt then Some v else None)"

definition redisGetDoc :: "World \<Rightarrow> string \<Rightarrow> PolicyDocument option io" where
  "redisGetDoc w key =
    await (redisCall w) (\<lambda>_ w1. (Inr (live (clock w1) (docCache w1 key)), w1))"

definition redisSetDoc :: "World \<Rightarrow> string \<Rightarrow> PolicyDocument \<Rightarrow> int \<Rightarrow> unit io" where
  "redisSetDoc w key doc ttl =
    await (redisCall w) (\<lambda>_ w1.
      (Inr (), w1\<lparr>docCache := (docCache w1)(key \<mapsto> (doc, clock w1 + ttl * 1000))\<rparr>))"

definition redisDelDoc :: "World \<Rightarrow> string \<Rightarrow> unit io" where
  "redisDelDoc w key =
    await (redisCall w) (\<lambda>_ w1. (Inr (), w1\<lparr>docCache := (docCache w1)(key := None)\<rparr>))"

definition redisGetEval :: "World \<Rightarrow> string \<Rightarrow> PolicyResult option io" where
  "redisGetEval w key =
    await (redisCall w) (\<lambda>_ w1. (Inr (live (clock w1) (evalCache w1 key)), w1))"

definition redisSetEval :: "World \<Rightarrow> string \<Rightarrow> PolicyResult \<Rightarrow> int \<Rightarrow> unit io" where
  "redisSetEval w key res ttl =
    await (redisCall w) (\<lambda>_ w1.
      (Inr (), w1\<lparr>evalCache := (evalCache w1)(key \<mapsto> (res, clock w1 + ttl * 1000))\<rparr>))"

definition logAction :: "World \<Rightarrow> AuditEntry \<Rightarrow> unit io" where
  "logAction w entry = (Inr (), w\<lparr>auditLog := auditLog w @ [entry]\<rparr>)"

section \<open>Policy loading and caching\<close>

definition getPolicyDocument :: "World \<Rightarrow> string \<Rightarrow> PolicyDocument io" where
  "getPolicyDocument w tid =
    (let cacheKey = POLICY_CACHE_PREFIX @ tid in
     await (redisGetDoc w cacheKey) (\<lambda>cached w1.
       case cached of
         Some doc \<Rightarrow> (Inr doc, w1)
       | None \<Rightarrow>
          (case tenants w1 tid of
             None \<Rightarrow> (Inr DEFAULT_POLICY, w1)
           | Some tenant \<Rightarrow>
              (case configuration tenant of
                 None \<Rightarrow> (Inr DEFAULT_POLICY, w1)
               | Some policyEngineConfig \<Rightarrow>
                   let policyDoc =
                     (case policyEngine policyEngineConfig of
                        Some doc \<Rightarrow> doc | None \<Rightarrow> DEFAULT_POLICY)
                   in
                     if version policyDoc \<noteq> 1 then (Inr DEFAULT_POLICY, w1)
                     else
                       await (redisSetDoc w1 cacheKey policyDoc CACHE_TTL) (\<lambda>_ w2.
                         (Inr policyDoc, w2))))))"

definition invalidatePolicyCache :: "World \<Rightarrow> string \<Rightarrow> unit io" where
  "invalidatePolicyCache w tid =
    (let cacheKey = POLICY_CACHE_PREFIX @ tid in redisDelDoc w cacheKey)"

definition updatePolicyDocument :: "World \<Rightarrow> string \<Rightarrow> PolicyDocument \<Rightarrow> int \<Rightarrow> unit io" where
  "updatePolicyDocument w tid policy actorId =
    (case tenants w tid of
       None \<Rightarrow> (Inl TenantNotFound, w)
     | Some tenant \<Rightarrow>
         let newConfiguration =
               (case configuration tenant of
                  None \<Rightarrow> \<lparr>policyEngine = Some policy, otherSettings = []\<rparr>
                | Some old \<Rightarrow> old\<lparr>policyEngine := Some policy\<rparr>);
             w1 = w\<lparr>tenants :=
                    (tenants w)(tid \<mapsto> tenant\<lparr>configuration := Some newConfiguration\<rparr>)\<rparr>
         in
           await (invalidatePolicyCache w1 tid) (\<lambda>_ w2.
             logAction w2
               \<lparr>audit_actorId = Some actorId, audit_actorUserId = None,
                audit_action = ''owner.policy.update'', audit_resource = ''Policy'',
                audit_payload = UpdatePayload tid (version policy)\<rparr>))"

section \<open>Policy evaluation\<close>

definition cacheEvalResult :: "World \<Rightarrow> string \<Rightarrow> PolicyResult \<Rightarrow> unit io" where
  "cacheEvalResult w key result = redisSetEval w key result 60"

definition logPolicyDeny ::
  "World \<Rightarrow> PolicySubject \<Rightarrow> PolicyAction \<Rightarrow> PolicyResource \<Rightarrow> PolicyContext \<Rightarrow> string
    \<Rightarrow> string option \<Rightarrow> unit io" where
  "logPolicyDeny w subject action resource context why ruleId =
    logAction w
      \<lparr>audit_actorId = None,
       audit_actorUserId =
         (if subject_type subject = ''user'' then Some (subject_id subject) else None),
       audit_action = ''policy.deny'',
       audit_resource = ''Policy:'' @ subject_id subject,
       audit_payload = DenyPayload subject action resource context why ruleId\<rparr>"

definition normalizeSubject :: "SubjectArg \<Rightarrow> PolicySubject" where
  "normalizeSubject subject =
    (case subject of
       RoleName r \<Rightarrow> \<lparr>subject_type = ''role'', subject_id = r\<rparr>
     | SubjectObj s \<Rightarrow> s)"

definition evaluate ::
  "World \<Rightarrow> SubjectArg \<Rightarrow> PolicyAction \<Rightarrow> PolicyResource \<Rightarrow> PolicyContext
    \<Rightarrow> PolicyResult io" where
  "evaluate w subject action resource context =
    (let normalizedSubject = normalizeSubject subject;
         evalCacheKey = getEvalCacheKey normalizedSubject action resource context
     in
     await (redisGetEval w evalCacheKey) (\<lambda>cachedResult w1.
       case cachedResult of
         Some cached \<Rightarrow> (Inr cached, w1)
       | None \<Rightarrow>
         await (getPolicyDocument w1 (tenantId context)) (\<lambda>policyDoc w2.
           case evaluateRBAC normalizedSubject action resource context policyDoc of
             Inl thrown \<Rightarrow> (Inl thrown, w2)
           | Inr rbacResult \<Rightarrow>
           if denied rbacResult then
             (let result = \<lparr>allowed = False, denied = True, reason = reason rbacResult,
                            matchedRuleId = None\<rparr>
              in
              await (cacheEvalResult w2 evalCacheKey result) (\<lambda>_ w3.
              await (logPolicyDeny w3 normalizedSubject action resource context
                       (reason result) None) (\<lambda>_ w4.
              (Inr result, w4))))
           else if allowed rbacResult then
             (let result = \<lparr>allowed = True, denied = False, reason = reason rbacResult,
                            matchedRuleId = None\<rparr>
              in
              await (cacheEvalResult w2 evalCacheKey result) (\<lambda>_ w3. (Inr result, w3)))
           else
             let abacResult =
                   evaluateABAC (clock w2) normalizedSubject action resource context policyDoc
             in
             if denied abacResult then
               (let result = \<lparr>allowed = False, denied = True, reason = reason abacResult,
                              matchedRuleId = matchedRuleId abacResult\<rparr>
                in
                await (cacheEvalResult w2 evalCacheKey result) (\<lambda>_ w3.
                await (logPolicyDeny w3 normalizedSubject action resource context
                         (reason result) (matchedRuleId result)) (\<lambda>_ w4.
                (Inr result, w4))))
             else if allowed abacResult then
               (let result = \<lparr>allowed = True, denied = False, reason = reason abacResult,
                              matchedRuleId = matchedRuleId abacResult\<rparr>
                in
                await (cacheEvalResult w2 evalCacheKey result) (\<lambda>_ w3. (Inr result, w3)))
             else
               (let result = \<lparr>allowed = False, denied = True,
                              reason = ''Denied by default (no allow/deny rule matched)'',
                              matchedRuleId = None\<rparr>
                in
                await (cacheEvalResult w2 evalCacheKey result) (\<lambda>_ w3.
                await (logPolicyDeny w3 normalizedSubject action resource context
                         (reason result) None) (\<lambda>_ w4.
                (Inr result, w4)))))))"

section \<open>Derived notions used in the statements\<close>

text \<open>
  The result \<^const>\<open>evaluate\<close> builds from the results of the two evaluators, and what
  it then does with it: write the evaluation cache, write a deny audit when the result
  is a denial, return.  Lemma \<open>evaluate_factored\<close> below shows that \<^const>\<open>evaluate\<close>
  is the composition of the two.
\<close>

definition verdict :: "PolicyResult \<Rightarrow> PolicyResult \<Rightarrow> PolicyResult" where
  "verdict rbacResult abacResult =
    (if denied rbacResult then
       \<lparr>allowed = False, denied = True, reason = reason rbacResult, matchedRuleId = None\<rparr>
     else if allowed rbacResult then
       \<lparr>allowed = True, denied = False, reason = reason rbacResult, matchedRuleId = None\<rparr>
     else if denied abacResult then
       \<lparr>allowed = False, denied = True, reason = reason abacResult,
        matchedRuleId = matchedRuleId abacResult\<rparr>
     else if allowed abacResult then
       \<lparr>allowed = True, denied = False, reason = reason abacResult,
        matchedRuleId = matchedRuleId abacResult\<rparr>
     else
       \<lparr>allowed = False, denied = True,
        reason = ''Denied by default (no allow/deny rule matched)'', matchedRuleId = None\<rparr>)"

definition settle ::
  "World \<Rightarrow> string \<Rightarrow> PolicySubject \<Rightarrow> PolicyAction \<Rightarrow> PolicyResource \<Rightarrow> PolicyContext
    \<Rightarrow> PolicyResult \<Rightarrow> PolicyResult io" where
  "settle w key subject action resource context result =
    await (cacheEvalResult w key result) (\<lambda>_ w1.
      if denied result then
        await (logPolicyDeny w1 subject action resource context (reason result)
                 (matchedRuleId result)) (\<lambda>_ w2. (Inr result, w2))
      else (Inr result, w1))"

text \<open>The number of deny audits in the audit sink.\<close>

definition denyAudits :: "World \<Rightarrow> nat" where
  "denyAudits w = length (filter (\<lambda>e. audit_action e = ''policy.deny'') (auditLog w))"


text \<open>
  Every entry of the evaluation cache holds a terminal result: exactly one of the two
  flags is set.
\<close>

definition evalCacheTerminal :: "World \<Rightarrow> bool" where
  "evalCacheTerminal w =
    (\<forall>key. case evalCache w key of
       None \<Rightarrow> True
     | Some (cached, expiresAt) \<Rightarrow> allowed cached \<noteq> denied cached)"

text \<open>
  The worlds the service can be in: it starts with empty caches and an empty audit log,
  over any tenant store, clock and fault schedule; its public operations run; the
  environment changes the store, the clock and the fault schedule at will.
\<close>

definition freshWorld :: "(string \<Rightarrow> Tenant option) \<Rightarrow> int \<Rightarrow> bool list \<Rightarrow> World" where
  "freshWorld ts t fs =
    \<lparr>tenants = ts, docCache = Map.empty, evalCache = Map.empty, auditLog = [],
     clock = t, redisFaults = fs\<rparr>"

inductive reachable :: "World \<Rightarrow> bool" where
  start: "reachable (freshWorld ts t fs)"
| after_evaluate:
    "reachable w \<Longrightarrow> reachable (snd (evaluate w subject action resource context))"
| after_getPolicyDocument:
    "reachable w \<Longrightarrow> reachable (snd (getPolicyDocument w tid))"
| after_invalidatePolicyCache:
    "reachable w \<Longrightarrow> reachable (snd (invalidatePolicyCache w tid))"
| after_updatePolicyDocument:
    "reachable w \<Longrightarrow> reachable (snd (updatePolicyDocument w tid policy actorId))"
| environment:
    "reachable w \<Longrightarrow> reachable (w\<lparr>tenants := ts, clock := t, redisFaults := fs\<rparr>)"

section \<open>Example data\<close>

definition viewerContext :: PolicyContext where
  "viewerContext =
    \<lparr>tenantId = ''t1'', workspaceId = None, userId = Some 1, requestId = ''req-1'',
     ip = ''10.0.0.1'', ua = ''curl'', deviceId = ''dev-1''\<rparr>"

definition otherUserContext :: PolicyContext where
  "otherUserContext =
    \<lparr>tenantId = ''t1'', workspaceId = None, userId = Some 2, requestId = ''req-2'',
     ip = ''10.0.0.2'', ua = ''curl'', deviceId = ''dev-2''\<rparr>"

definition viewerSubject :: PolicySubject where
  "viewerSubject = \<lparr>subject_type = ''role'', subject_id = ''VIEWER''\<rparr>"

definition allowReadRule :: PolicyRule where
  "allowReadRule =
    \<lparr>rule_id = ''allow-read'', rule_effect = Allow, rule_subject = viewerSubject,
     rule_action = ''read'', rule_resource = ''Article'', rule_conditions = None,
     rule_priority = 0\<rparr>"

definition denyReadRule :: PolicyRule where
  "denyReadRule =
    \<lparr>rule_id = ''deny-read'', rule_effect = Deny, rule_subject = viewerSubject,
     rule_action = ''read'', rule_resource = ''Article'', rule_conditions = None,
     rule_priority = 0\<rparr>"

definition userOneRule :: PolicyRule where
  "userOneRule =
    \<lparr>rule_id = ''user-one'', rule_effect = Allow, rule_subject = viewerSubject,
     rule_action = ''read'', rule_resource = ''Article'',
     rule_conditions =
       Some \<lparr>cond_tenantId = None, cond_workspaceId = None, cond_userIds = Some [1],
             cond_time = None\<rparr>,
     rule_priority = 0\<rparr>"

definition readPermission :: "PolicyEffect \<Rightarrow> string \<Rightarrow> Permission" where
  "readPermission effect scope =
    \<lparr>perm_resource = ''Article'', perm_actions = [''read''], perm_effect = effect,
     perm_scope = scope\<rparr>"

definition viewerDocument :: "PolicyEffect \<Rightarrow> string \<Rightarrow> PolicyRule list \<Rightarrow> PolicyDocument" where
  "viewerDocument effect scope rs =
    \<lparr>version = 1,
     roles = [(''VIEWER'', \<lparr>permissions = [readPermission effect scope]\<rparr>)],
     rules = rs, denyByDefault = True\<rparr>"

definition rulesDocument :: "int \<Rightarrow> PolicyRule list \<Rightarrow> PolicyDocument" where
  "rulesDocument v rs = \<lparr>version = v, roles = [], rules = rs, denyByDefault = True\<rparr>"

definition tenantWith :: "PolicyDocument \<Rightarrow> string \<Rightarrow> Tenant option" where
  "tenantWith doc tid =
    (if tid = ''t1'' then
       Some \<lparr>configuration = Some \<lparr>policyEngine = Some doc, otherSettings = []\<rparr>\<rparr>
     else None)"

definition noTenants :: "string \<Rightarrow> Tenant option" where
  "noTenants tid = None"

definition bareTenant :: "string \<Rightarrow> Tenant option" where
  "bareTenant tid = (if tid = ''t1'' then Some \<lparr>configuration = None\<rparr> else None)"

text \<open>
  The world after one evaluation for an unconfigured tenant: the default denial is in
  the evaluation cache and in the audit log.
\<close>

definition cachedDenyWorld :: World where
  "cachedDenyWorld =
    snd (evaluate (freshWorld noTenants 0 []) (RoleName ''VIEWER'') ''read'' ''Article''
      viewerContext)"

section \<open>Basic facts\<close>


lemma await_Inr: "await (Inr x, w) k = k x w"
  by (simp add: await_def)

lemma redisCall_ok: "redisFaults w = [] \<Longrightarrow> redisCall w = (Inr (), w)"
  by (simp add: redisCall_def)


lemma redisCall_pass:
  "redisFaults w = False # fs \<Longrightarrow> redisCall w = (Inr (), w\<lparr>redisFaults := fs\<rparr>)"
  by (simp add: redisCall_def)

lemma placeBy_deny: "rule_effect a = Deny \<Longrightarrow> placeBy compareRules a xs = a # xs"
  by (cases xs) (simp_all add: compareRules_def)

lemma placeBy_allow:
  "rule_effect a = Allow \<Longrightarrow> \<forall>x \<in> set ds. rule_effect x = Deny \<Longrightarrow>
   \<forall>x \<in> set as. rule_effect x = Allow \<Longrightarrow>
   placeBy compareRules a (ds @ as) = ds @ a # as"
proof (induction ds)
  case Nil
  then show ?case by (cases as) (simp_all add: compareRules_def)
next
  case (Cons d ds)
  have d: "rule_effect d = Deny" using Cons.prems(2) by simp
  have ih: "placeBy compareRules a (ds @ as) = ds @ a # as"
    using Cons.IH Cons.prems by simp
  have "compareRules a d > 0" using d Cons.prems(1) by (simp add: compareRules_def)
  then show ?case using ih by simp
qed

lemma sortBy_compareRules:
  "sortBy compareRules xs =
     filter (\<lambda>x. rule_effect x = Deny) xs @ filter (\<lambda>x. rule_effect x = Allow) xs"
proof (induction xs)
  case Nil
  show ?case by simp
next
  case (Cons a xs)
  let ?D = "filter (\<lambda>x. rule_effect x = Deny) xs"
  let ?A = "filter (\<lambda>x. rule_effect x = Allow) xs"
  have step: "sortBy compareRules (a # xs) = placeBy compareRules a (?D @ ?A)"
    by (simp only: sortBy.simps Cons.IH)
  show ?case
  proof (cases "rule_effect a")
    case Allow
    have "placeBy compareRules a (?D @ ?A) = ?D @ a # ?A"
      by (rule placeBy_allow) (simp_all add: Allow)
    then show ?thesis unfolding step by (simp add: Allow)
  next
    case Deny
    then show ?thesis unfolding step by (simp add: placeBy_deny)
  qed
qed

lemma await_cong: "(\<And>x w'. k x w' = k' x w') \<Longrightarrow> await m k = await m k'"
  by (simp add: await_def split: prod.splits sum.splits)

lemma settle_denied:
  "denied result \<Longrightarrow>
   settle w key s a r c result =
     await (cacheEvalResult w key result) (\<lambda>_ w3.
       await (logPolicyDeny w3 s a r c (reason result) (matchedRuleId result)) (\<lambda>_ w4.
         (Inr result, w4)))"
  by (simp add: settle_def)

lemma settle_allowed:
  "\<not> denied result \<Longrightarrow>
   settle w key s a r c result =
     await (cacheEvalResult w key result) (\<lambda>_ w3. (Inr result, w3))"
  by (simp add: settle_def)

lemma evaluate_factored:
  "evaluate w subject action resource context =
    (let ns = normalizeSubject subject; key = getEvalCacheKey ns action resource context in
     await (redisGetEval w key) (\<lambda>cachedResult w1.
       case cachedResult of
         Some cached \<Rightarrow> (Inr cached, w1)
       | None \<Rightarrow>
           await (getPolicyDocument w1 (tenantId context)) (\<lambda>policyDoc w2.
             case evaluateRBAC ns action resource context policyDoc of
               Inl thrown \<Rightarrow> (Inl thrown, w2)
             | Inr rbacResult \<Rightarrow>
                 settle w2 key ns action resource context
                   (verdict rbacResult
                     (evaluateABAC (clock w2) ns action resource context policyDoc)))))"
  unfolding evaluate_def Let_def
  apply (rule await_cong)
  subgoal for cached w1
    apply (cases cached)
     apply (simp only: option.case)
     apply (rule await_cong)
    subgoal for policyDoc w2
      apply (cases "evaluateRBAC (normalizeSubject subject) action resource context policyDoc")
       apply (simp only: sum.case)
      subgoal for rbacResult
        apply (simp only: sum.case)
        apply (cases "denied rbacResult")
         apply (simp only: verdict_def if_True)
         apply (subst settle_denied)
          apply simp
         apply simp
        apply (cases "allowed rbacResult")
         apply (simp only: verdict_def if_True if_False)
         apply (subst settle_allowed)
          apply simp
         apply simp
        apply (cases "denied (evaluateABAC (clock w2) (normalizeSubject subject) action resource context policyDoc)")
         apply (simp only: verdict_def if_True if_False)
         apply (subst settle_denied)
          apply simp
         apply simp
        apply (cases "allowed (evaluateABAC (clock w2) (normalizeSubject subject) action resource context policyDoc)")
         apply (simp only: verdict_def if_True if_False)
         apply (subst settle_allowed)
          apply simp
         apply simp
        apply (simp only: verdict_def if_True if_False)
        apply (subst settle_denied)
         apply simp
        apply simp
        done
      done
    apply simp
    done
  done

text \<open>A document-cache key is never an evaluation-cache key.\<close>

lemma cache_keys_disjoint:
  "POLICY_CACHE_PREFIX @ tid \<noteq> getEvalCacheKey subject action resource c"
  by (simp add: POLICY_CACHE_PREFIX_def EVAL_CACHE_PREFIX_def getEvalCacheKey_def)

subsection \<open>Lists of rules\<close>

lemma find_Some_filter: "find P xs = Some x \<Longrightarrow> \<exists>rest. filter P xs = x # rest \<and> P x"
  by (induction xs) (auto split: if_splits)

lemma find_None_filter: "find P xs = None \<Longrightarrow> filter P xs = []"
  by (induction xs) (auto split: if_splits)

lemma find_None_all: "find P xs = None \<Longrightarrow> \<forall>x \<in> set xs. \<not> P x"
  by (induction xs) (auto split: if_splits)

lemma no_deny_all_allow:
  "find (\<lambda>x. rule_effect x = Deny) xs = None \<Longrightarrow> filter (\<lambda>x. rule_effect x = Allow) xs = xs"
proof -
  assume "find (\<lambda>x. rule_effect x = Deny) xs = None"
  then have "\<forall>x \<in> set xs. rule_effect x \<noteq> Deny" by (rule find_None_all)
  then have "\<forall>x \<in> set xs. rule_effect x = Allow"
    by (metis PolicyEffect.exhaust)
  then show ?thesis by simp
qed

lemma firstVerdict_Cons:
  "firstVerdict (first # rest) =
     \<lparr>allowed = (rule_effect first = Allow), denied = (rule_effect first = Deny),
      reason = (if rule_effect first = Deny then ''Denied by rule '' else ''Allowed by rule '')
        @ rule_id first,
      matchedRuleId = Some (rule_id first)\<rparr>"
  by (cases "rule_effect first") simp_all

subsection \<open>Cache operations and what they leave unchanged\<close>

lemma await_preserves:
  assumes "P (snd m)"
    and "\<And>x w'. m = (Inr x, w') \<Longrightarrow> P (snd (k x w'))"
  shows "P (snd (await m k))"
  using assms by (cases m; cases "fst m") (auto simp: await_def)

lemma await_Inr_iff:
  "await m k = (Inr y, w') \<longleftrightarrow> (\<exists>x w1. m = (Inr x, w1) \<and> k x w1 = (Inr y, w'))"
  by (cases m; cases "fst m") (auto simp: await_def)


lemma redisCall_frame:
  "tenants (snd (redisCall w)) = tenants w"
  "docCache (snd (redisCall w)) = docCache w"
  "evalCache (snd (redisCall w)) = evalCache w"
  "auditLog (snd (redisCall w)) = auditLog w"
  "clock (snd (redisCall w)) = clock w"
  by (simp_all add: redisCall_def split: list.splits)

lemma redisCall_result_frame:
  assumes "redisCall w = (x, w1)"
  shows "tenants w1 = tenants w" "docCache w1 = docCache w" "evalCache w1 = evalCache w"
    "auditLog w1 = auditLog w" "clock w1 = clock w"
  using redisCall_frame [of w] assms by simp_all

text \<open>What each cache operation leaves behind, whether it fails or not.\<close>

lemma redisGetDoc_frame:
  assumes "redisGetDoc w key = (x, w1)"
  shows "tenants w1 = tenants w" "docCache w1 = docCache w" "evalCache w1 = evalCache w"
    "auditLog w1 = auditLog w" "clock w1 = clock w"
  using assms redisCall_frame [of w]
  by (cases "redisCall w"; cases "fst (redisCall w)"; simp add: redisGetDoc_def await_def)+

lemma redisGetEval_frame:
  assumes "redisGetEval w key = (x, w1)"
  shows "tenants w1 = tenants w" "docCache w1 = docCache w" "evalCache w1 = evalCache w"
    "auditLog w1 = auditLog w" "clock w1 = clock w"
  using assms redisCall_frame [of w]
  by (cases "redisCall w"; cases "fst (redisCall w)"; simp add: redisGetEval_def await_def)+

lemma redisSetDoc_frame:
  assumes "redisSetDoc w key doc ttl = (x, w1)"
  shows "tenants w1 = tenants w" "evalCache w1 = evalCache w"
    "auditLog w1 = auditLog w" "clock w1 = clock w"
  using assms redisCall_frame [of w]
  by (cases "redisCall w"; cases "fst (redisCall w)"; auto simp add: redisSetDoc_def await_def)+

lemma redisDelDoc_frame:
  assumes "redisDelDoc w key = (x, w1)"
  shows "tenants w1 = tenants w" "evalCache w1 = evalCache w"
    "auditLog w1 = auditLog w" "clock w1 = clock w"
  using assms redisCall_frame [of w]
  by (cases "redisCall w"; cases "fst (redisCall w)"; auto simp add: redisDelDoc_def await_def)+

lemma getPolicyDocument_frame:
  assumes "getPolicyDocument w tid = (x, w1)"
  shows "tenants w1 = tenants w \<and> evalCache w1 = evalCache w \<and>
    auditLog w1 = auditLog w \<and> clock w1 = clock w"
proof -
  let ?P = "\<lambda>w'. tenants w' = tenants w \<and> evalCache w' = evalCache w \<and>
    auditLog w' = auditLog w \<and> clock w' = clock w"
  have "?P (snd (getPolicyDocument w tid))"
    unfolding getPolicyDocument_def Let_def
  proof (rule await_preserves, goal_cases)
    case 1
    show ?case
      using redisGetDoc_frame [of w "POLICY_CACHE_PREFIX @ tid"]
      by (cases "redisGetDoc w (POLICY_CACHE_PREFIX @ tid)") simp
  next
    case (2 cached w')
    note f = redisGetDoc_frame [OF 2]
    have set: "?P (snd (await (redisSetDoc w' key doc ttl) (\<lambda>_ w2. (Inr doc, w2))))"
      for key doc ttl
    proof (rule await_preserves, goal_cases)
      case 1
      show ?case using redisSetDoc_frame [of w' key doc ttl] f
        by (cases "redisSetDoc w' key doc ttl") simp
    next
      case (2 u w2)
      show ?case using redisSetDoc_frame [OF 2] f by simp
    qed
    show ?case
      using f set by (simp split: option.splits)
  qed
  then show ?thesis using assms by simp
qed

subsection \<open>The evaluation cache holds terminal results\<close>

lemma evalCacheTerminal_frame:
  "evalCache w' = evalCache w \<Longrightarrow> evalCacheTerminal w' = evalCacheTerminal w"
  by (simp add: evalCacheTerminal_def)

lemma redisSetEval_terminal:
  assumes "evalCacheTerminal w" and "allowed res \<noteq> denied res"
  shows "evalCacheTerminal (snd (redisSetEval w key res ttl))"
proof -
  have w1: "evalCacheTerminal w1" if "redisCall w = (x, w1)" for x w1
    using redisCall_result_frame(3) [OF that] assms(1) by (simp add: evalCacheTerminal_def)
  show ?thesis
    unfolding redisSetEval_def
  proof (rule await_preserves, goal_cases)
    case 1
    show ?case using w1 [of "fst (redisCall w)" "snd (redisCall w)"] by simp
  next
    case (2 x w')
    from w1 [OF 2] assms(2) show ?case by (simp add: evalCacheTerminal_def)
  qed
qed

lemma logAction_frame:
  "tenants (snd (logAction w e)) = tenants w"
  "docCache (snd (logAction w e)) = docCache w"
  "evalCache (snd (logAction w e)) = evalCache w"
  "clock (snd (logAction w e)) = clock w"
  "redisFaults (snd (logAction w e)) = redisFaults w"
  "auditLog (snd (logAction w e)) = auditLog w @ [e]"
  "fst (logAction w e) = Inr ()"
  by (simp_all add: logAction_def)

lemma settle_terminal:
  assumes "evalCacheTerminal w" and "allowed res \<noteq> denied res"
  shows "evalCacheTerminal (snd (settle w key s a r c res))"
  unfolding settle_def cacheEvalResult_def
proof (rule await_preserves, goal_cases)
  case 1
  show ?case using assms by (rule redisSetEval_terminal)
next
  case (2 x w')
  have w': "evalCacheTerminal w'"
    using redisSetEval_terminal [OF assms, of key 60] 2 by simp
  show ?case
  proof (cases "denied res")
    case True
    have "evalCacheTerminal (snd (logPolicyDeny w' s a r c (reason res) (matchedRuleId res)))"
      using w' by (simp add: logPolicyDeny_def logAction_def evalCacheTerminal_def)
    then show ?thesis
      using True by (simp add: logPolicyDeny_def logAction_def await_def)
  next
    case False
    then show ?thesis using w' by simp
  qed
qed

lemma verdict_terminal: "allowed (verdict rbac abac) \<noteq> denied (verdict rbac abac)"
  by (simp add: verdict_def)

lemma settle_result:
  "settle w key s a r c res = (Inr res', w') \<Longrightarrow> res' = res"
  by (auto simp: settle_def await_Inr_iff logPolicyDeny_def logAction_def split: if_splits)

lemma evaluate_terminal:
  assumes "evalCacheTerminal w"
  shows "evalCacheTerminal (snd (evaluate w subject action resource context))"
  unfolding evaluate_factored Let_def
proof (rule await_preserves, goal_cases)
  case 1
  show ?case
    using assms
      redisGetEval_frame(3) [of w _ "fst (redisGetEval w
        (getEvalCacheKey (normalizeSubject subject) action resource context))"
        "snd (redisGetEval w
        (getEvalCacheKey (normalizeSubject subject) action resource context))"]
    by (simp add: evalCacheTerminal_def)
next
  case (2 cached w1)
  have w1: "evalCacheTerminal w1"
    using redisGetEval_frame(3) [OF 2] assms by (simp add: evalCacheTerminal_def)
  show ?case
  proof (cases cached)
    case (Some c)
    then show ?thesis using w1 by simp
  next
    case None
    have "evalCacheTerminal (snd (await (getPolicyDocument w1 (tenantId context))
        (\<lambda>policyDoc w2.
           case evaluateRBAC (normalizeSubject subject) action resource context policyDoc of
             Inl thrown \<Rightarrow> (Inl thrown, w2)
           | Inr rbacResult \<Rightarrow>
               settle w2 (getEvalCacheKey (normalizeSubject subject) action resource context)
                 (normalizeSubject subject) action resource context
                 (verdict rbacResult
                   (evaluateABAC (clock w2) (normalizeSubject subject) action resource context
                     policyDoc)))))"
    proof (rule await_preserves, goal_cases)
      case 1
      show ?case
        using getPolicyDocument_frame [of w1 "tenantId context"
            "fst (getPolicyDocument w1 (tenantId context))"
            "snd (getPolicyDocument w1 (tenantId context))"] w1
        by (simp add: evalCacheTerminal_def)
    next
      case (2 policyDoc w2)
      have w2: "evalCacheTerminal w2"
        using getPolicyDocument_frame [OF 2] w1 by (simp add: evalCacheTerminal_def)
      show ?case
      proof (cases "evaluateRBAC (normalizeSubject subject) action resource context policyDoc")
        case (Inl thrown)
        then show ?thesis using w2 by simp
      next
        case (Inr rbacResult)
        have "evalCacheTerminal (snd (settle w2
            (getEvalCacheKey (normalizeSubject subject) action resource context)
            (normalizeSubject subject) action resource context
            (verdict rbacResult
              (evaluateABAC (clock w2) (normalizeSubject subject) action resource context
                policyDoc))))"
          using w2 by (rule settle_terminal) (rule verdict_terminal)
        then show ?thesis using Inr by simp
      qed
    qed
    then show ?thesis using None by simp
  qed
qed

lemma invalidatePolicyCache_frame:
  assumes "invalidatePolicyCache w tid = (x, w1)"
  shows "tenants w1 = tenants w" "evalCache w1 = evalCache w"
    "auditLog w1 = auditLog w" "clock w1 = clock w"
  using redisDelDoc_frame [of w "POLICY_CACHE_PREFIX @ tid" x w1] assms
  by (simp_all add: invalidatePolicyCache_def)

lemma updatePolicyDocument_evalCache:
  "evalCache (snd (updatePolicyDocument w tid policy actorId)) = evalCache w"
proof (cases "tenants w tid")
  case None
  then show ?thesis by (simp add: updatePolicyDocument_def)
next
  case (Some tenant)
  show ?thesis
    unfolding updatePolicyDocument_def Let_def Some option.case
  proof (rule await_preserves, goal_cases)
    case 1
    have "evalCache (snd (invalidatePolicyCache v tid)) = evalCache v" for v
      using invalidatePolicyCache_frame(2) [of v tid
          "fst (invalidatePolicyCache v tid)" "snd (invalidatePolicyCache v tid)"]
      by simp
    then show ?case by simp
  next
    case (2 x w')
    show ?case
      using invalidatePolicyCache_frame(2) [OF 2] by (simp add: logAction_def)
  qed
qed

lemma reachable_evalCacheTerminal: "reachable w \<Longrightarrow> evalCacheTerminal w"
proof (induction rule: reachable.induct)
  case (start ts t fs)
  show ?case by (simp add: evalCacheTerminal_def freshWorld_def)
next
  case (after_evaluate w subject action resource ctx)
  then show ?case by (simp add: evaluate_terminal)
next
  case (after_getPolicyDocument w tid)
  then show ?case
    using getPolicyDocument_frame [of w tid "fst (getPolicyDocument w tid)"
        "snd (getPolicyDocument w tid)"]
    by (simp add: evalCacheTerminal_def)
next
  case (after_invalidatePolicyCache w tid)
  then show ?case
    using invalidatePolicyCache_frame(2) [of w tid "fst (invalidatePolicyCache w tid)"
        "snd (invalidatePolicyCache w tid)"]
    by (simp add: evalCacheTerminal_def)
next
  case (after_updatePolicyDocument w tid policy actorId)
  then show ?case
    by (simp add: evalCacheTerminal_def updatePolicyDocument_evalCache)
next
  case (environment w ts t fs)
  then show ?case by (simp add: evalCacheTerminal_def)
qed

subsection \<open>The paths of a successful evaluation\<close>

lemma live_Some: "live now entry = Some v \<Longrightarrow> \<exists>e. entry = Some (v, e) \<and> now < e"
  by (auto simp: live_def split: option.splits if_splits)

lemma evaluate_Inr_cases:
  assumes "evaluate w subject action resource context = (Inr res, w')"
  obtains (hit) w1 where
      "redisGetEval w (getEvalCacheKey (normalizeSubject subject) action resource context)
         = (Inr (Some res), w1)" "w' = w1"
  | (miss) w1 policyDoc w2 rbacResult where
      "redisGetEval w (getEvalCacheKey (normalizeSubject subject) action resource context)
         = (Inr None, w1)"
      "getPolicyDocument w1 (tenantId context) = (Inr policyDoc, w2)"
      "settle w2 (getEvalCacheKey (normalizeSubject subject) action resource context)
         (normalizeSubject subject) action resource context
         (verdict rbacResult
           (evaluateABAC (clock w2) (normalizeSubject subject) action resource context
             policyDoc))
       = (Inr res, w')"
      "res = verdict rbacResult
         (evaluateABAC (clock w2) (normalizeSubject subject) action resource context policyDoc)"
      "evaluateRBAC (normalizeSubject subject) action resource context policyDoc
         = Inr rbacResult"
proof -
  from assms obtain cached w1 where
    g: "redisGetEval w (getEvalCacheKey (normalizeSubject subject) action resource context)
         = (Inr cached, w1)"
    and k: "(case cached of
         Some c \<Rightarrow> (Inr c, w1)
       | None \<Rightarrow>
           await (getPolicyDocument w1 (tenantId context)) (\<lambda>policyDoc w2.
             case evaluateRBAC (normalizeSubject subject) action resource context policyDoc of
               Inl thrown \<Rightarrow> (Inl thrown, w2)
             | Inr rbacResult \<Rightarrow>
                 settle w2 (getEvalCacheKey (normalizeSubject subject) action resource context)
                   (normalizeSubject subject) action resource context
                   (verdict rbacResult
                     (evaluateABAC (clock w2) (normalizeSubject subject) action resource
                       context policyDoc))))
       = (Inr res, w')"
    unfolding evaluate_factored Let_def await_Inr_iff by blast
  show thesis
  proof (cases cached)
    case (Some c)
    with k have "c = res" "w' = w1" by simp_all
    with g Some show thesis by (auto intro: hit)
  next
    case None
    from k have k': "await (getPolicyDocument w1 (tenantId context)) (\<lambda>policyDoc w2.
             case evaluateRBAC (normalizeSubject subject) action resource context policyDoc of
               Inl thrown \<Rightarrow> (Inl thrown, w2)
             | Inr rbacResult \<Rightarrow>
                 settle w2 (getEvalCacheKey (normalizeSubject subject) action resource context)
                   (normalizeSubject subject) action resource context
                   (verdict rbacResult
                     (evaluateABAC (clock w2) (normalizeSubject subject) action resource
                       context policyDoc)))
       = (Inr res, w')"
      unfolding None by simp
    from k' [unfolded await_Inr_iff] obtain policyDoc w2 where
      d: "getPolicyDocument w1 (tenantId context) = (Inr policyDoc, w2)"
      and c: "(case evaluateRBAC (normalizeSubject subject) action resource context policyDoc of
               Inl thrown \<Rightarrow> (Inl thrown, w2)
             | Inr rbacResult \<Rightarrow>
                 settle w2 (getEvalCacheKey (normalizeSubject subject) action resource context)
                   (normalizeSubject subject) action resource context
                   (verdict rbacResult
                     (evaluateABAC (clock w2) (normalizeSubject subject) action resource
                       context policyDoc)))
       = (Inr res, w')"
      by blast
    from c obtain rbacResult where
      r: "evaluateRBAC (normalizeSubject subject) action resource context policyDoc
         = Inr rbacResult"
      and s: "settle w2 (getEvalCacheKey (normalizeSubject subject) action resource context)
         (normalizeSubject subject) action resource context
         (verdict rbacResult
           (evaluateABAC (clock w2) (normalizeSubject subject) action resource context
             policyDoc))
       = (Inr res, w')"
      by (cases "evaluateRBAC (normalizeSubject subject) action resource context policyDoc")
        simp_all
    from settle_result [OF s] g None d s r show thesis by (auto intro: miss)
  qed
qed

lemma redisGetEval_Inr:
  "redisGetEval w key = (Inr cached, w1) \<Longrightarrow> cached = live (clock w) (evalCache w key)"
  using redisCall_result_frame [of w]
  by (auto simp: redisGetEval_def await_Inr_iff)

subsection \<open>Runs in which the cache answers\<close>

lemma redisGetEval_ok:
  "redisFaults w = [] \<Longrightarrow> redisGetEval w key = (Inr (live (clock w) (evalCache w key)), w)"
  by (simp add: redisGetEval_def redisCall_ok await_Inr)

lemma redisGetDoc_ok:
  "redisFaults w = [] \<Longrightarrow> redisGetDoc w key = (Inr (live (clock w) (docCache w key)), w)"
  by (simp add: redisGetDoc_def redisCall_ok await_Inr)

lemma redisSetDoc_ok:
  "redisFaults w = [] \<Longrightarrow>
   redisSetDoc w key doc ttl =
     (Inr (), w\<lparr>docCache := (docCache w)(key \<mapsto> (doc, clock w + ttl * 1000))\<rparr>)"
  by (simp add: redisSetDoc_def redisCall_ok await_Inr)

lemma redisDelDoc_ok:
  "redisFaults w = [] \<Longrightarrow>
   redisDelDoc w key = (Inr (), w\<lparr>docCache := (docCache w)(key := None)\<rparr>)"
  by (simp add: redisDelDoc_def redisCall_ok await_Inr)

lemma redisSetEval_ok:
  "redisFaults w = [] \<Longrightarrow>
   redisSetEval w key res ttl =
     (Inr (), w\<lparr>evalCache := (evalCache w)(key \<mapsto> (res, clock w + ttl * 1000))\<rparr>)"
  by (simp add: redisSetEval_def redisCall_ok await_Inr)

text \<open>The three ways in which a tenant has no usable policy document.\<close>

lemma getPolicyDocument_default:
  assumes "redisCall w = (Inr (), w1)"
    and "live (clock w) (docCache w (POLICY_CACHE_PREFIX @ tid)) = None"
    and "tenants w tid = None
      \<or> (\<exists>tenant. tenants w tid = Some tenant \<and> configuration tenant = None)
      \<or> (\<exists>tenant config doc. tenants w tid = Some tenant \<and>
            configuration tenant = Some config \<and> policyEngine config = Some doc \<and>
            version doc \<noteq> 1)"
  shows "getPolicyDocument w tid = (Inr DEFAULT_POLICY, w1)"
proof -
  note f = redisCall_result_frame [OF assms(1)]
  have g: "redisGetDoc w (POLICY_CACHE_PREFIX @ tid) = (Inr None, w1)"
    using assms(1,2) f by (simp add: redisGetDoc_def await_Inr)
  show ?thesis
    using assms(3) f(1)
    by (auto simp: getPolicyDocument_def g await_Inr)
qed

lemma getPolicyDocument_load:
  assumes "redisFaults w = []"
    and "live (clock w) (docCache w (POLICY_CACHE_PREFIX @ tid)) = None"
    and "tenants w tid = Some tenant" and "configuration tenant = Some config"
    and "policyEngine config = Some doc" and "version doc = 1"
  shows "getPolicyDocument w tid =
    (Inr doc, w\<lparr>docCache :=
       (docCache w)(POLICY_CACHE_PREFIX @ tid \<mapsto> (doc, clock w + CACHE_TTL * 1000))\<rparr>)"
  using assms
  by (simp add: getPolicyDocument_def redisGetDoc_ok redisSetDoc_ok await_Inr)

lemma getPolicyDocument_nofault:
  assumes "redisFaults w = []"
  shows "\<exists>doc w'. getPolicyDocument w tid = (Inr doc, w') \<and> redisFaults w' = []"
  using assms
  by (simp add: getPolicyDocument_def redisGetDoc_ok redisSetDoc_ok await_Inr Let_def
      split: option.splits)

lemma settle_nofault_denied:
  assumes "redisFaults w = []" and "denied res"
  shows "settle w key s a r c res =
    (Inr res,
     w\<lparr>evalCache := (evalCache w)(key \<mapsto> (res, clock w + 60 * 1000)),
       auditLog := auditLog w @
         [\<lparr>audit_actorId = None,
           audit_actorUserId =
             (if subject_type s = ''user'' then Some (subject_id s) else None),
           audit_action = ''policy.deny'',
           audit_resource = ''Policy:'' @ subject_id s,
           audit_payload = DenyPayload s a r c (reason res) (matchedRuleId res)\<rparr>]\<rparr>)"
  using assms
  by (simp add: settle_def cacheEvalResult_def redisSetEval_ok await_Inr logPolicyDeny_def
      logAction_def)

lemma settle_nofault_allowed:
  assumes "redisFaults w = []" and "\<not> denied res"
  shows "settle w key s a r c res =
    (Inr res, w\<lparr>evalCache := (evalCache w)(key \<mapsto> (res, clock w + 60 * 1000))\<rparr>)"
  using assms
  by (simp add: settle_def cacheEvalResult_def redisSetEval_ok await_Inr)

lemma evaluate_miss:
  assumes "redisFaults w = []"
    and "live (clock w)
      (evalCache w (getEvalCacheKey (normalizeSubject subject) action resource context)) = None"
    and "getPolicyDocument w (tenantId context) = (Inr policyDoc, w2)"
    and "evaluateRBAC (normalizeSubject subject) action resource context policyDoc
      = Inr rbacResult"
  shows "evaluate w subject action resource context =
    settle w2 (getEvalCacheKey (normalizeSubject subject) action resource context)
      (normalizeSubject subject) action resource context
      (verdict rbacResult
        (evaluateABAC (clock w) (normalizeSubject subject) action resource context policyDoc))"
proof -
  have "clock w2 = clock w" using getPolicyDocument_frame [OF assms(3)] by simp
  then show ?thesis
    using assms by (simp add: evaluate_factored Let_def redisGetEval_ok await_Inr)
qed

lemma evaluate_miss_thrown:
  assumes "redisFaults w = []"
    and "live (clock w)
      (evalCache w (getEvalCacheKey (normalizeSubject subject) action resource context)) = None"
    and "getPolicyDocument w (tenantId context) = (Inr policyDoc, w2)"
    and "evaluateRBAC (normalizeSubject subject) action resource context policyDoc
      = Inl thrown"
  shows "evaluate w subject action resource context = (Inl thrown, w2)"
  using assms by (simp add: evaluate_factored Let_def redisGetEval_ok await_Inr)

lemma evaluate_miss_result:
  assumes "redisFaults w = []"
    and "live (clock w)
      (evalCache w (getEvalCacheKey (normalizeSubject subject) action resource context)) = None"
    and "fst (getPolicyDocument w (tenantId context)) = Inr policyDoc"
    and "evaluateRBAC (normalizeSubject subject) action resource context policyDoc
      = Inr rbacResult"
  shows "fst (evaluate w subject action resource context) =
    Inr (verdict rbacResult
      (evaluateABAC (clock w) (normalizeSubject subject) action resource context policyDoc))"
proof -
  from getPolicyDocument_nofault [OF assms(1), of "tenantId context"] assms(3)
  obtain w2 where g: "getPolicyDocument w (tenantId context) = (Inr policyDoc, w2)"
    and f: "redisFaults w2 = []"
    by auto
  show ?thesis
    unfolding evaluate_miss [OF assms(1,2) g assms(4)]
    using settle_nofault_denied [OF f] settle_nofault_allowed [OF f]
    by (cases "denied (verdict rbacResult
        (evaluateABAC (clock w) (normalizeSubject subject) action resource context policyDoc))")
      simp_all
qed

lemma evaluate_hit:
  assumes "redisFaults w = []"
    and "live (clock w)
      (evalCache w (getEvalCacheKey (normalizeSubject subject) action resource context))
      = Some res"
  shows "evaluate w subject action resource context = (Inr res, w)"
  using assms by (simp add: evaluate_factored Let_def redisGetEval_ok await_Inr)

lemma evaluateRBAC_rules:
  "evaluateRBAC s a r c (policyDoc\<lparr>rules := rs\<rparr>) = evaluateRBAC s a r c policyDoc"
  by (simp add: evaluateRBAC_def)

lemma settle_nofault:
  assumes "redisFaults w = []"
  shows "\<exists>w'. settle w key s a r c res = (Inr res, w') \<and> redisFaults w' = [] \<and>
    clock w' = clock w \<and> evalCache w' key = Some (res, clock w + 60 * 1000)"
proof (cases "denied res")
  case True
  show ?thesis unfolding settle_nofault_denied [OF assms True] using assms by simp
next
  case False
  show ?thesis unfolding settle_nofault_allowed [OF assms False] using assms by simp
qed

lemma evaluate_replay:
  assumes "redisFaults w = []"
    and "evaluate w subject action resource context = (Inr res, w')"
  shows "redisFaults w' = [] \<and>
    live (clock w')
      (evalCache w' (getEvalCacheKey (normalizeSubject subject) action resource context))
      = Some res"
  using assms(2)
proof (cases rule: evaluate_Inr_cases)
  case (hit w1)
  note eq = hit(1) [unfolded redisGetEval_ok [OF assms(1)]]
  from eq have "w1 = w"
    and "live (clock w)
        (evalCache w (getEvalCacheKey (normalizeSubject subject) action resource context))
      = Some res"
    by auto
  with hit(2) assms(1) show ?thesis by simp
next
  case (miss w1 policyDoc w2 rbacResult)
  from miss(1) assms(1) have w1: "w1 = w" by (simp add: redisGetEval_ok)
  from getPolicyDocument_nofault [OF assms(1), of "tenantId context"] miss(2) w1
  have f2: "redisFaults w2 = []" by auto
  from settle_nofault [OF f2, of "getEvalCacheKey (normalizeSubject subject) action resource
      context" "normalizeSubject subject" action resource "context" res] miss(3)
  have "redisFaults w' = []" and "clock w' = clock w2"
    and "evalCache w' (getEvalCacheKey (normalizeSubject subject) action resource context)
      = Some (res, clock w2 + 60 * 1000)"
    unfolding miss(4) [symmetric] by auto
  then show ?thesis by (simp add: live_def)
qed

lemma getEvalCacheKey_context:
  assumes "tenantId c1 = tenantId c2"
    and "(case workspaceId c1 of Some ws \<Rightarrow> ws | None \<Rightarrow> ''global'') =
         (case workspaceId c2 of Some ws \<Rightarrow> ws | None \<Rightarrow> ''global'')"
  shows "getEvalCacheKey s a r c1 = getEvalCacheKey s a r c2"
  using assms by (simp add: getEvalCacheKey_def)

lemma settle_audit:
  assumes "settle w key s a r c res = (Inr res', w')"
  shows "auditLog w' = auditLog w @
    (if denied res then
       [\<lparr>audit_actorId = None,
         audit_actorUserId = (if subject_type s = ''user'' then Some (subject_id s) else None),
         audit_action = ''policy.deny'',
         audit_resource = ''Policy:'' @ subject_id s,
         audit_payload = DenyPayload s a r c (reason res) (matchedRuleId res)\<rparr>]
     else [])"
proof -
  from assms obtain u w1 where
    c: "redisSetEval w key res 60 = (Inr u, w1)"
    and k: "(if denied res then
        await (logPolicyDeny w1 s a r c (reason res) (matchedRuleId res))
          (\<lambda>_ w2. (Inr res, w2))
      else (Inr res, w1)) = (Inr res', w')"
    unfolding settle_def cacheEvalResult_def await_Inr_iff by blast
  from c obtain u' w0 where r: "redisCall w = (Inr u', w0)"
    and w1: "w1 = w0\<lparr>evalCache := (evalCache w0)(key \<mapsto> (res, clock w0 + 60 * 1000))\<rparr>"
    unfolding redisSetEval_def await_Inr_iff by auto
  have a1: "auditLog w1 = auditLog w"
    using redisCall_result_frame(4) [OF r] w1 by simp
  show ?thesis
    using k a1 by (auto simp: logPolicyDeny_def logAction_def await_Inr split: if_splits)
qed

lemma evaluate_twice:
  assumes "redisFaults w = []"
    and "fst (evaluate w subject action resource c) = Inr res"
  shows "evaluate (snd (evaluate w subject action resource c)) subject action resource c =
    (Inr res, snd (evaluate w subject action resource c))"
proof -
  from assms(2) have e: "evaluate w subject action resource c =
      (Inr res, snd (evaluate w subject action resource c))"
    by (cases "evaluate w subject action resource c") simp
  from evaluate_replay [OF assms(1) e] show ?thesis
    by (intro evaluate_hit) simp_all
qed

lemma evaluate_miss_entry:
  assumes "redisFaults w = []"
    and "live (clock w)
      (evalCache w (getEvalCacheKey (normalizeSubject subject) action resource c)) = None"
    and "evaluate w subject action resource c = (Inr res, w')"
  shows "redisFaults w' = [] \<and>
    evalCache w' (getEvalCacheKey (normalizeSubject subject) action resource c)
      = Some (res, clock w + 60 * 1000)"
  using assms(3)
proof (cases rule: evaluate_Inr_cases)
  case (hit w1)
  note eq = hit(1) [unfolded redisGetEval_ok [OF assms(1)]]
  with assms(2) show ?thesis by simp
next
  case (miss w1 policyDoc w2 rbacResult)
  from miss(1) assms(1) have w1: "w1 = w" by (simp add: redisGetEval_ok)
  from getPolicyDocument_nofault [OF assms(1), of "tenantId c"] miss(2) w1
  have f2: "redisFaults w2 = []" by auto
  have c2: "clock w2 = clock w" using getPolicyDocument_frame [OF miss(2)] w1 by simp
  from settle_nofault [OF f2, of "getEvalCacheKey (normalizeSubject subject) action resource c"
      "normalizeSubject subject" action resource c res] miss(3)
  show ?thesis unfolding miss(4) [symmetric] by (auto simp: c2)
qed

subsection \<open>The example worlds\<close>

lemma freshWorld_fields:
  "tenants (freshWorld ts t fs) = ts"
  "docCache (freshWorld ts t fs) key = None"
  "evalCache (freshWorld ts t fs) key = None"
  "auditLog (freshWorld ts t fs) = []"
  "clock (freshWorld ts t fs) = t"
  "redisFaults (freshWorld ts t fs) = fs"
  by (simp_all add: freshWorld_def)

lemma live_None: "live now None = None"
  by (simp add: live_def)

lemma fresh_unconfigured:
  "getPolicyDocument (freshWorld noTenants t []) tid =
     (Inr DEFAULT_POLICY, freshWorld noTenants t [])"
  by (rule getPolicyDocument_default)
    (simp_all add: redisCall_ok freshWorld_fields live_None noTenants_def)

lemma fresh_configured:
  assumes "version doc = 1"
  shows "fst (getPolicyDocument (freshWorld (tenantWith doc) t []) ''t1'') = Inr doc"
proof -
  have "getPolicyDocument (freshWorld (tenantWith doc) t []) ''t1'' =
    (Inr doc, (freshWorld (tenantWith doc) t [])\<lparr>docCache :=
       (docCache (freshWorld (tenantWith doc) t []))
         (POLICY_CACHE_PREFIX @ ''t1'' \<mapsto>
           (doc, clock (freshWorld (tenantWith doc) t []) + CACHE_TTL * 1000))\<rparr>)"
    by (rule getPolicyDocument_load [where tenant =
          "\<lparr>configuration = Some \<lparr>policyEngine = Some doc, otherSettings = []\<rparr>\<rparr>"
          and config = "\<lparr>policyEngine = Some doc, otherSettings = []\<rparr>"])
      (simp_all add: freshWorld_fields live_None tenantWith_def assms)
  then show ?thesis by simp
qed

lemma viewer_normalized: "normalizeSubject (RoleName ''VIEWER'') = viewerSubject"
  by (simp add: normalizeSubject_def viewerSubject_def)

lemma viewer_tenant: "tenantId viewerContext = ''t1''" "tenantId otherUserContext = ''t1''"
  by (simp_all add: viewerContext_def otherUserContext_def)

lemma default_no_opinion:
  "evaluateRBAC viewerSubject ''read'' ''Article'' c DEFAULT_POLICY =
     Inr \<lparr>allowed = False, denied = False, reason = ''Role VIEWER not found in policy'',
          matchedRuleId = None\<rparr>"
  "evaluateABAC now viewerSubject ''read'' ''Article'' c DEFAULT_POLICY =
     \<lparr>allowed = False, denied = False, reason = ''No ABAC rules matched'',
      matchedRuleId = None\<rparr>"
  by (simp_all add: evaluateRBAC_def evaluateABAC_def matchingRules_def DEFAULT_POLICY_def
      viewerSubject_def objectPrototypeKeys_def)

lemma unconfigured_first_call:
  "fst (evaluate (freshWorld noTenants 0 []) (RoleName ''VIEWER'') ''read'' ''Article''
      viewerContext) =
    Inr \<lparr>allowed = False, denied = True,
         reason = ''Denied by default (no allow/deny rule matched)'', matchedRuleId = None\<rparr>"
proof -
  have "fst (evaluate (freshWorld noTenants 0 []) (RoleName ''VIEWER'') ''read'' ''Article''
      viewerContext) =
    Inr (verdict
      \<lparr>allowed = False, denied = False, reason = ''Role VIEWER not found in policy'',
       matchedRuleId = None\<rparr>
      (evaluateABAC (clock (freshWorld noTenants 0 []))
        (normalizeSubject (RoleName ''VIEWER'')) ''read'' ''Article'' viewerContext
        DEFAULT_POLICY))"
    by (rule evaluate_miss_result)
      (simp_all add: freshWorld_fields live_None fresh_unconfigured viewer_normalized
        default_no_opinion)
  then show ?thesis
    by (simp add: verdict_def viewer_normalized default_no_opinion)
qed

lemma cachedDenyWorld_replay:
  "evaluate cachedDenyWorld (RoleName ''VIEWER'') ''read'' ''Article'' viewerContext =
    (Inr \<lparr>allowed = False, denied = True,
          reason = ''Denied by default (no allow/deny rule matched)'', matchedRuleId = None\<rparr>,
     cachedDenyWorld)"
  unfolding cachedDenyWorld_def
  by (rule evaluate_twice) (simp_all add: freshWorld_fields unconfigured_first_call)

lemma cachedDenyWorld_reachable: "reachable cachedDenyWorld"
  unfolding cachedDenyWorld_def by (intro reachable.after_evaluate reachable.start)

lemma cachedDenyWorld_audits: "denyAudits cachedDenyWorld = 1"
proof -
  let ?rbac = "\<lparr>allowed = False, denied = False,
    reason = ''Role VIEWER not found in policy'', matchedRuleId = None\<rparr>"
  let ?abac = "evaluateABAC (clock (freshWorld noTenants 0 []))
    (normalizeSubject (RoleName ''VIEWER'')) ''read'' ''Article'' viewerContext DEFAULT_POLICY"
  have f: "redisFaults (freshWorld noTenants 0 []) = []" by (simp add: freshWorld_fields)
  have d: "denied (verdict ?rbac ?abac)"
    by (simp add: verdict_def viewer_normalized default_no_opinion)
  have "evaluate (freshWorld noTenants 0 []) (RoleName ''VIEWER'') ''read'' ''Article''
      viewerContext =
    settle (freshWorld noTenants 0 [])
      (getEvalCacheKey (normalizeSubject (RoleName ''VIEWER'')) ''read'' ''Article''
        viewerContext)
      (normalizeSubject (RoleName ''VIEWER'')) ''read'' ''Article'' viewerContext
      (verdict ?rbac ?abac)"
    by (rule evaluate_miss)
      (simp_all add: freshWorld_fields live_None fresh_unconfigured viewer_normalized
        default_no_opinion)
  then show ?thesis
    unfolding cachedDenyWorld_def settle_nofault_denied [OF f d]
    by (simp add: denyAudits_def freshWorld_fields)
qed

lemma cachedDenyWorld_live:
  "live (clock cachedDenyWorld)
      (evalCache cachedDenyWorld
        (getEvalCacheKey (normalizeSubject (RoleName ''VIEWER'')) ''read'' ''Article''
          viewerContext)) \<noteq> None"
proof -
  obtain w' where e: "evaluate (freshWorld noTenants 0 []) (RoleName ''VIEWER'') ''read''
      ''Article'' viewerContext =
      (Inr \<lparr>allowed = False, denied = True,
            reason = ''Denied by default (no allow/deny rule matched)'',
            matchedRuleId = None\<rparr>, w')"
    using unconfigured_first_call
    by (cases "evaluate (freshWorld noTenants 0 []) (RoleName ''VIEWER'') ''read''
      ''Article'' viewerContext") simp
  have w': "cachedDenyWorld = w'" unfolding cachedDenyWorld_def e by simp
  from evaluate_replay [OF _ e] show ?thesis unfolding w' by (simp add: freshWorld_fields)
qed

subsection \<open>Successful cache calls\<close>













section \<open>RBAC deny short-circuits ABAC\<close>

text \<open>
  Claim C1.  When the RBAC evaluator returns an explicit deny on the loaded document,
  \<^const>\<open>evaluate\<close> returns a denied result which carries the reason of the RBAC
  evaluator and no rule id, and the rule list of the document has no part in it: with
  any other rule list in the document, in particular one with a rule that allows the
  same request, the outcome is the same.
\<close>

theorem rbac_deny_short_circuits:
  assumes "redisFaults w = []" and "redisFaults w' = []"
    and "live (clock w)
      (evalCache w (getEvalCacheKey (normalizeSubject subject) action resource context)) = None"
    and "live (clock w')
      (evalCache w' (getEvalCacheKey (normalizeSubject subject) action resource context)) = None"
    and "fst (getPolicyDocument w (tenantId context)) = Inr policyDoc"
    and "fst (getPolicyDocument w' (tenantId context)) = Inr (policyDoc\<lparr>rules := otherRules\<rparr>)"
    and "evaluateRBAC (normalizeSubject subject) action resource context policyDoc
      = Inr rbacResult"
    and "denied rbacResult"
  shows "fst (evaluate w subject action resource context) =
      Inr \<lparr>allowed = False, denied = True, reason = reason rbacResult,
           matchedRuleId = None\<rparr>
    \<and> fst (evaluate w' subject action resource context) =
      fst (evaluate w subject action resource context)"
proof -
  have 1: "verdict rbacResult abacResult =
      \<lparr>allowed = False, denied = True, reason = reason rbacResult, matchedRuleId = None\<rparr>"
    for abacResult
    using assms(8) by (simp add: verdict_def)
  have 2: "evaluateRBAC (normalizeSubject subject) action resource context
      (policyDoc\<lparr>rules := otherRules\<rparr>) = Inr rbacResult"
    using assms(7) by (simp add: evaluateRBAC_rules)
  show ?thesis
    using evaluate_miss_result [OF assms(1,3,5,7)] evaluate_miss_result [OF assms(2,4,6) 2]
    by (simp add: 1)
qed

theorem rbac_deny_short_circuits_witness:
  "allowed (evaluateABAC 0 viewerSubject ''read'' ''Article'' viewerContext
      (viewerDocument Deny ''all'' [allowReadRule]))
   \<and> fst (evaluate (freshWorld (tenantWith (viewerDocument Deny ''all'' [allowReadRule])) 0 [])
        (RoleName ''VIEWER'') ''read'' ''Article'' viewerContext) =
      Inr \<lparr>allowed = False, denied = True,
           reason = ''Deny effect for role VIEWER on Article'', matchedRuleId = None\<rparr>
   \<and> fst (evaluate (freshWorld (tenantWith (viewerDocument Deny ''all'' [])) 0 [])
        (RoleName ''VIEWER'') ''read'' ''Article'' viewerContext) =
      Inr \<lparr>allowed = False, denied = True,
           reason = ''Deny effect for role VIEWER on Article'', matchedRuleId = None\<rparr>"
proof -
  let ?doc = "viewerDocument Deny ''all'' []"
  let ?w = "freshWorld (tenantWith ?doc) 0 []"
  let ?w' = "freshWorld (tenantWith (viewerDocument Deny ''all'' [allowReadRule])) 0 []"
  let ?rbac = "\<lparr>allowed = False, denied = True,
       reason = ''Deny effect for role VIEWER on Article'', matchedRuleId = None\<rparr>"
  have v: "version (viewerDocument e sc rs) = 1" for e sc rs
    by (simp add: viewerDocument_def)
  have r: "?doc\<lparr>rules := [allowReadRule]\<rparr> = viewerDocument Deny ''all'' [allowReadRule]"
    by (simp add: viewerDocument_def)
  have rbac: "evaluateRBAC (normalizeSubject (RoleName ''VIEWER'')) ''read'' ''Article''
      viewerContext ?doc = Inr ?rbac"
    by (simp add: evaluateRBAC_def viewerDocument_def readPermission_def normalizeSubject_def)
  have abac: "allowed (evaluateABAC 0 viewerSubject ''read'' ''Article'' viewerContext
      (viewerDocument Deny ''all'' [allowReadRule]))"
    by (simp add: evaluateABAC_def matchingRules_def ruleMatches_def viewerDocument_def
        allowReadRule_def)
  have "fst (evaluate ?w (RoleName ''VIEWER'') ''read'' ''Article'' viewerContext) =
      Inr \<lparr>allowed = False, denied = True, reason = reason ?rbac, matchedRuleId = None\<rparr>
    \<and> fst (evaluate ?w' (RoleName ''VIEWER'') ''read'' ''Article'' viewerContext) =
      fst (evaluate ?w (RoleName ''VIEWER'') ''read'' ''Article'' viewerContext)"
    by (rule rbac_deny_short_circuits [where policyDoc = ?doc and otherRules = "[allowReadRule]"])
      (simp_all add: freshWorld_fields live_None viewer_tenant fresh_configured v r rbac)
  then show ?thesis using abac by simp
qed

section \<open>Default deny\<close>

text \<open>
  Claim C2, as the code has it.  When the RBAC evaluator and the ABAC evaluator both
  return no opinion on the loaded document (neither an explicit allow nor an explicit
  deny), \<^const>\<open>evaluate\<close> returns a denied result with the reason
  \<^verbatim>\<open>Denied by default (no allow/deny rule matched)\<close> and no rule id.
\<close>

theorem default_deny:
  assumes "redisFaults w = []"
    and "live (clock w)
      (evalCache w (getEvalCacheKey (normalizeSubject subject) action resource context)) = None"
    and "fst (getPolicyDocument w (tenantId context)) = Inr policyDoc"
    and "evaluateRBAC (normalizeSubject subject) action resource context policyDoc
      = Inr rbacResult"
    and "\<not> allowed rbacResult"
    and "\<not> denied rbacResult"
    and "\<not> allowed (evaluateABAC (clock w) (normalizeSubject subject) action resource context
          policyDoc)"
    and "\<not> denied (evaluateABAC (clock w) (normalizeSubject subject) action resource context
          policyDoc)"
  shows "fst (evaluate w subject action resource context) =
      Inr \<lparr>allowed = False, denied = True,
           reason = ''Denied by default (no allow/deny rule matched)'',
           matchedRuleId = None\<rparr>"
  using evaluate_miss_result [OF assms(1,2,3,4)] assms(5-8)
  by (simp add: verdict_def)

theorem default_deny_witness:
  "fst (evaluate (freshWorld noTenants 0 []) (RoleName ''VIEWER'') ''read'' ''Article''
      viewerContext) =
    Inr \<lparr>allowed = False, denied = True,
         reason = ''Denied by default (no allow/deny rule matched)'', matchedRuleId = None\<rparr>"
  by (rule default_deny [where policyDoc = DEFAULT_POLICY and rbacResult =
        "\<lparr>allowed = False, denied = False, reason = ''Role VIEWER not found in policy'',
          matchedRuleId = None\<rparr>"])
    (simp_all add: freshWorld_fields live_None fresh_unconfigured viewer_normalized
      default_no_opinion)

text \<open>
  For an unconfigured tenant and the role \<^verbatim>\<open>VIEWER\<close> both evaluators return no opinion,
  and the reason of the denial is not the string \<^verbatim>\<open>denied by default\<close>.  For the role
  \<^verbatim>\<open>constructor\<close> the RBAC evaluator produces no allow and no deny either: it raises a
  \<^verbatim>\<open>TypeError\<close>, and \<^const>\<open>evaluate\<close> returns no result at all.
\<close>

theorem default_deny_reason_counterexample:
  "evaluateRBAC viewerSubject ''read'' ''Article'' viewerContext DEFAULT_POLICY =
      Inr \<lparr>allowed = False, denied = False, reason = ''Role VIEWER not found in policy'',
           matchedRuleId = None\<rparr>
   \<and> \<not> allowed (evaluateABAC 0 viewerSubject ''read'' ''Article'' viewerContext DEFAULT_POLICY)
   \<and> \<not> denied (evaluateABAC 0 viewerSubject ''read'' ''Article'' viewerContext DEFAULT_POLICY)
   \<and> fst (evaluate (freshWorld noTenants 0 []) (RoleName ''VIEWER'') ''read'' ''Article''
        viewerContext) \<noteq>
      Inr \<lparr>allowed = False, denied = True, reason = ''denied by default'',
           matchedRuleId = None\<rparr>
   \<and> evaluateRBAC (normalizeSubject (RoleName ''constructor'')) ''read'' ''Article''
        viewerContext DEFAULT_POLICY = Inl TypeError
   \<and> fst (evaluate (freshWorld noTenants 0 []) (RoleName ''constructor'') ''read'' ''Article''
        viewerContext) = Inl TypeError"
proof -
  have t: "evaluateRBAC (normalizeSubject (RoleName ''constructor'')) ''read'' ''Article''
        viewerContext DEFAULT_POLICY = Inl TypeError"
    by (simp add: evaluateRBAC_def normalizeSubject_def DEFAULT_POLICY_def
        objectPrototypeKeys_def)
  have "evaluate (freshWorld noTenants 0 []) (RoleName ''constructor'') ''read'' ''Article''
        viewerContext = (Inl TypeError, freshWorld noTenants 0 [])"
    by (rule evaluate_miss_thrown [where policyDoc = DEFAULT_POLICY])
      (simp_all add: freshWorld_fields live_None fresh_unconfigured t)
  then show ?thesis
    by (simp add: default_no_opinion unconfigured_first_call t)
qed

section \<open>The ABAC tie-break\<close>

text \<open>
  Claim C3, as the code has it.  Among the rules matching a request, every rule with
  effect deny stands before every rule with effect allow, and the document order is kept
  within one effect.  The first rule of this ordering determines the result: its effect
  and its id are returned.  So when some matching rule denies, the result is the denial
  by the first matching deny rule of the document, wherever the allow rules stand; when
  none denies, it is the allowance by the first matching rule; and when no rule matches,
  the evaluator returns no opinion, with the reason \<^verbatim>\<open>No ABAC rules matched\<close>.
\<close>

theorem abac_deny_before_allow:
  "sortBy compareRules (matchingRules now subject action resource context policyDoc) =
     filter (\<lambda>x. rule_effect x = Deny)
       (matchingRules now subject action resource context policyDoc) @
     filter (\<lambda>x. rule_effect x = Allow)
       (matchingRules now subject action resource context policyDoc)
   \<and> evaluateABAC now subject action resource context policyDoc =
     (case sortBy compareRules (matchingRules now subject action resource context policyDoc) of
        [] \<Rightarrow>
          \<lparr>allowed = False, denied = False, reason = ''No ABAC rules matched'',
           matchedRuleId = None\<rparr>
      | first # _ \<Rightarrow>
          \<lparr>allowed = (rule_effect first = Allow), denied = (rule_effect first = Deny),
           reason =
             (if rule_effect first = Deny then ''Denied by rule '' else ''Allowed by rule '')
               @ rule_id first,
           matchedRuleId = Some (rule_id first)\<rparr>)
   \<and> (\<forall>d. find (\<lambda>x. rule_effect x = Deny)
             (matchingRules now subject action resource context policyDoc) = Some d \<longrightarrow>
          evaluateABAC now subject action resource context policyDoc =
            \<lparr>allowed = False, denied = True, reason = ''Denied by rule '' @ rule_id d,
             matchedRuleId = Some (rule_id d)\<rparr>)
   \<and> (\<forall>a rest. find (\<lambda>x. rule_effect x = Deny)
             (matchingRules now subject action resource context policyDoc) = None \<and>
           matchingRules now subject action resource context policyDoc = a # rest \<longrightarrow>
          evaluateABAC now subject action resource context policyDoc =
            \<lparr>allowed = True, denied = False, reason = ''Allowed by rule '' @ rule_id a,
             matchedRuleId = Some (rule_id a)\<rparr>)
   \<and> (matchingRules now subject action resource context policyDoc = [] \<longrightarrow>
          evaluateABAC now subject action resource context policyDoc =
            \<lparr>allowed = False, denied = False, reason = ''No ABAC rules matched'',
             matchedRuleId = None\<rparr>)"
proof -
  let ?M = "matchingRules now subject action resource context policyDoc"
  let ?R = "evaluateABAC now subject action resource context policyDoc"
  have order: "sortBy compareRules ?M =
      filter (\<lambda>x. rule_effect x = Deny) ?M @ filter (\<lambda>x. rule_effect x = Allow) ?M"
    by (rule sortBy_compareRules)
  have verdict: "?R = firstVerdict (sortBy compareRules ?M)"
    by (simp only: evaluateABAC_def)
  have first: "?R =
     (case sortBy compareRules ?M of
        [] \<Rightarrow>
          \<lparr>allowed = False, denied = False, reason = ''No ABAC rules matched'',
           matchedRuleId = None\<rparr>
      | first # _ \<Rightarrow>
          \<lparr>allowed = (rule_effect first = Allow), denied = (rule_effect first = Deny),
           reason =
             (if rule_effect first = Deny then ''Denied by rule '' else ''Allowed by rule '')
               @ rule_id first,
           matchedRuleId = Some (rule_id first)\<rparr>)"
    unfolding verdict
    by (cases "sortBy compareRules ?M") (simp_all only: firstVerdict_Cons firstVerdict.simps list.case)
  have deny: "?R = \<lparr>allowed = False, denied = True, reason = ''Denied by rule '' @ rule_id d,
             matchedRuleId = Some (rule_id d)\<rparr>"
    if "find (\<lambda>x. rule_effect x = Deny) ?M = Some d" for d
  proof -
    from find_Some_filter [OF that] obtain rest
      where f: "filter (\<lambda>x. rule_effect x = Deny) ?M = d # rest" and d: "rule_effect d = Deny"
      by blast
    have "sortBy compareRules ?M = d # (rest @ filter (\<lambda>x. rule_effect x = Allow) ?M)"
      unfolding order f by simp
    then show ?thesis unfolding verdict by (simp add: d)
  qed
  have allow: "?R = \<lparr>allowed = True, denied = False, reason = ''Allowed by rule '' @ rule_id a,
             matchedRuleId = Some (rule_id a)\<rparr>"
    if "find (\<lambda>x. rule_effect x = Deny) ?M = None" and "?M = a # rest" for a rest
  proof -
    have "sortBy compareRules ?M = ?M"
      unfolding order using find_None_filter [OF that(1)] no_deny_all_allow [OF that(1)]
      by simp
    moreover have "rule_effect a = Allow"
      using find_None_all [OF that(1)] that(2) by (cases "rule_effect a") auto
    ultimately show ?thesis unfolding verdict using that(2) by simp
  qed
  have none: "?R = \<lparr>allowed = False, denied = False, reason = ''No ABAC rules matched'',
             matchedRuleId = None\<rparr>" if "?M = []"
    unfolding verdict that by simp
  show ?thesis using order first deny allow none by blast
qed

theorem abac_deny_before_allow_witness:
  "evaluateABAC 0 viewerSubject ''read'' ''Article'' viewerContext
      (rulesDocument 1 [allowReadRule, denyReadRule]) =
     \<lparr>allowed = False, denied = True, reason = ''Denied by rule deny-read'',
      matchedRuleId = Some ''deny-read''\<rparr>
   \<and> evaluateABAC 0 viewerSubject ''read'' ''Article'' viewerContext
      (rulesDocument 1 [denyReadRule, allowReadRule]) =
     \<lparr>allowed = False, denied = True, reason = ''Denied by rule deny-read'',
      matchedRuleId = Some ''deny-read''\<rparr>
   \<and> evaluateABAC 0 viewerSubject ''read'' ''Article'' viewerContext
      (rulesDocument 1 [allowReadRule]) =
     \<lparr>allowed = True, denied = False, reason = ''Allowed by rule allow-read'',
      matchedRuleId = Some ''allow-read''\<rparr>
   \<and> evaluateABAC 0 viewerSubject ''read'' ''Article'' viewerContext (rulesDocument 1 []) =
     \<lparr>allowed = False, denied = False, reason = ''No ABAC rules matched'',
      matchedRuleId = None\<rparr>"
proof -
  have ma: "ruleMatches 0 viewerSubject ''read'' ''Article'' viewerContext allowReadRule"
    by (simp add: ruleMatches_def allowReadRule_def)
  have md: "ruleMatches 0 viewerSubject ''read'' ''Article'' viewerContext denyReadRule"
    by (simp add: ruleMatches_def denyReadRule_def)
  have m: "matchingRules 0 viewerSubject ''read'' ''Article'' viewerContext
      (rulesDocument 1 rs) =
      filter (ruleMatches 0 viewerSubject ''read'' ''Article'' viewerContext) rs" for rs
    by (simp add: matchingRules_def rulesDocument_def)
  have ea: "rule_effect allowReadRule = Allow" and ia: "rule_id allowReadRule = ''allow-read''"
    by (simp_all add: allowReadRule_def)
  have ed: "rule_effect denyReadRule = Deny" and idd: "rule_id denyReadRule = ''deny-read''"
    by (simp_all add: denyReadRule_def)
  note t = abac_deny_before_allow [of 0 viewerSubject "''read''" "''Article''" viewerContext]
  have 1: "find (\<lambda>x. rule_effect x = Deny)
      (matchingRules 0 viewerSubject ''read'' ''Article'' viewerContext
        (rulesDocument 1 [allowReadRule, denyReadRule])) = Some denyReadRule"
    by (simp add: m ma md ea ed)
  have 2: "find (\<lambda>x. rule_effect x = Deny)
      (matchingRules 0 viewerSubject ''read'' ''Article'' viewerContext
        (rulesDocument 1 [denyReadRule, allowReadRule])) = Some denyReadRule"
    by (simp add: m ma md ea ed)
  have 3: "find (\<lambda>x. rule_effect x = Deny)
      (matchingRules 0 viewerSubject ''read'' ''Article'' viewerContext
        (rulesDocument 1 [allowReadRule])) = None \<and>
      matchingRules 0 viewerSubject ''read'' ''Article'' viewerContext
        (rulesDocument 1 [allowReadRule]) = allowReadRule # []"
    by (simp add: m ma ea)
  have 4: "matchingRules 0 viewerSubject ''read'' ''Article'' viewerContext
        (rulesDocument 1 []) = []"
    by (simp add: m)
  from t [of "rulesDocument 1 [allowReadRule, denyReadRule]"] 1
  have r1: "evaluateABAC 0 viewerSubject ''read'' ''Article'' viewerContext
      (rulesDocument 1 [allowReadRule, denyReadRule]) =
     \<lparr>allowed = False, denied = True, reason = ''Denied by rule '' @ rule_id denyReadRule,
      matchedRuleId = Some (rule_id denyReadRule)\<rparr>"
    by blast
  from t [of "rulesDocument 1 [denyReadRule, allowReadRule]"] 2
  have r2: "evaluateABAC 0 viewerSubject ''read'' ''Article'' viewerContext
      (rulesDocument 1 [denyReadRule, allowReadRule]) =
     \<lparr>allowed = False, denied = True, reason = ''Denied by rule '' @ rule_id denyReadRule,
      matchedRuleId = Some (rule_id denyReadRule)\<rparr>"
    by blast
  from t [of "rulesDocument 1 [allowReadRule]"] 3
  have r3: "evaluateABAC 0 viewerSubject ''read'' ''Article'' viewerContext
      (rulesDocument 1 [allowReadRule]) =
     \<lparr>allowed = True, denied = False, reason = ''Allowed by rule '' @ rule_id allowReadRule,
      matchedRuleId = Some (rule_id allowReadRule)\<rparr>"
    by blast
  from t [of "rulesDocument 1 []"] 4
  have r4: "evaluateABAC 0 viewerSubject ''read'' ''Article'' viewerContext
      (rulesDocument 1 []) =
     \<lparr>allowed = False, denied = False, reason = ''No ABAC rules matched'',
      matchedRuleId = None\<rparr>"
    by blast
  show ?thesis unfolding r1 r2 r3 r4 by (simp add: ia idd)
qed

text \<open>
  The reason of the no-match result is written with a capital letter: the result is not
  the one whose reason is \<^verbatim>\<open>no ABAC rules matched\<close>.
\<close>

theorem abac_no_match_reason_counterexample:
  "matchingRules 0 viewerSubject ''read'' ''Article'' viewerContext DEFAULT_POLICY = []
   \<and> evaluateABAC 0 viewerSubject ''read'' ''Article'' viewerContext DEFAULT_POLICY \<noteq>
       \<lparr>allowed = False, denied = False, reason = ''no ABAC rules matched'',
        matchedRuleId = None\<rparr>"
  by (simp add: evaluateABAC_def matchingRules_def DEFAULT_POLICY_def)

section \<open>Results are terminal\<close>

text \<open>
  Claim C4.  In every world the service can reach, every result \<^const>\<open>evaluate\<close>
  returns has exactly one of the flags \<open>allowed\<close> and \<open>denied\<close> set, on the cache-hit
  path as well as after an evaluation: the no-opinion state of the two evaluators is
  never returned.
\<close>

theorem evaluate_result_terminal:
  assumes "reachable w"
    and "fst (evaluate w subject action resource context) = Inr res"
  shows "allowed res \<noteq> denied res"
proof -
  from assms(2) obtain w' where e: "evaluate w subject action resource context = (Inr res, w')"
    by (cases "evaluate w subject action resource context") simp
  have inv: "evalCacheTerminal w" using assms(1) by (rule reachable_evalCacheTerminal)
  from e show ?thesis
  proof (cases rule: evaluate_Inr_cases)
    case (hit w1)
    from redisGetEval_Inr [OF hit(1)] obtain e where
      "evalCache w (getEvalCacheKey (normalizeSubject subject) action resource context)
        = Some (res, e)"
      using live_Some [of "clock w" _ res] by metis
    with inv show ?thesis by (auto simp: evalCacheTerminal_def split: option.splits)
  next
    case (miss w1 policyDoc w2 rbacResult)
    then show ?thesis by (simp add: verdict_terminal)
  qed
qed

theorem evaluate_result_terminal_witness:
  "reachable cachedDenyWorld
   \<and> fst (evaluate cachedDenyWorld (RoleName ''VIEWER'') ''read'' ''Article'' viewerContext) =
      Inr \<lparr>allowed = False, denied = True,
           reason = ''Denied by default (no allow/deny rule matched)'', matchedRuleId = None\<rparr>
   \<and> allowed \<lparr>allowed = False, denied = True,
           reason = ''Denied by default (no allow/deny rule matched)'', matchedRuleId = None\<rparr>
      \<noteq> denied \<lparr>allowed = False, denied = True,
           reason = ''Denied by default (no allow/deny rule matched)'', matchedRuleId = None\<rparr>"
proof -
  have e: "fst (evaluate cachedDenyWorld (RoleName ''VIEWER'') ''read'' ''Article''
      viewerContext) =
      Inr \<lparr>allowed = False, denied = True,
           reason = ''Denied by default (no allow/deny rule matched)'', matchedRuleId = None\<rparr>"
    by (simp add: cachedDenyWorld_replay)
  from evaluate_result_terminal [OF cachedDenyWorld_reachable e]
  show ?thesis using cachedDenyWorld_reachable e by blast
qed

section \<open>Deny audits\<close>

text \<open>
  Claim C5, as the code has it.  A call of \<^const>\<open>evaluate\<close> that misses the
  evaluation cache and returns a denied result appends exactly one deny audit, the one
  of this request, to the audit log; a call that misses the cache and returns an allowed
  result appends nothing; a call answered from the evaluation cache appends nothing,
  whatever the cached result is.
\<close>

theorem deny_audit_on_evaluation:
  assumes "fst (evaluate w subject action resource context) = Inr res"
  shows
    "(live (clock w)
        (evalCache w (getEvalCacheKey (normalizeSubject subject) action resource context))
        = None \<and> denied res \<longrightarrow>
      \<not> allowed res \<and>
      auditLog (snd (evaluate w subject action resource context)) = auditLog w @
        [\<lparr>audit_actorId = None,
          audit_actorUserId =
            (if subject_type (normalizeSubject subject) = ''user''
             then Some (subject_id (normalizeSubject subject)) else None),
          audit_action = ''policy.deny'',
          audit_resource = ''Policy:'' @ subject_id (normalizeSubject subject),
          audit_payload = DenyPayload (normalizeSubject subject) action resource context
            (reason res) (matchedRuleId res)\<rparr>] \<and>
      denyAudits (snd (evaluate w subject action resource context)) = denyAudits w + 1)
   \<and> (live (clock w)
        (evalCache w (getEvalCacheKey (normalizeSubject subject) action resource context))
        = None \<and> allowed res \<longrightarrow>
      \<not> denied res \<and>
      auditLog (snd (evaluate w subject action resource context)) = auditLog w)
   \<and> (live (clock w)
        (evalCache w (getEvalCacheKey (normalizeSubject subject) action resource context))
        \<noteq> None \<longrightarrow>
      auditLog (snd (evaluate w subject action resource context)) = auditLog w)"
proof -
  from assms obtain w' where e: "evaluate w subject action resource context = (Inr res, w')"
    by (cases "evaluate w subject action resource context") simp
  from e show ?thesis
  proof (cases rule: evaluate_Inr_cases)
    case (hit w1)
    from redisGetEval_Inr [OF hit(1), symmetric] redisGetEval_frame(4) [OF hit(1)] hit(2) e
    show ?thesis by simp
  next
    case (miss w1 policyDoc w2 rbacResult)
    have "auditLog w2 = auditLog w"
      using redisGetEval_frame(4) [OF miss(1)] getPolicyDocument_frame [OF miss(2)] by simp
    moreover have "allowed res \<noteq> denied res"
      unfolding miss(4) by (rule verdict_terminal)
    moreover note redisGetEval_Inr [OF miss(1), symmetric]
    ultimately show ?thesis
      using settle_audit [OF miss(3)] e miss(4) by (auto simp: denyAudits_def)
  qed
qed

theorem deny_audit_on_evaluation_witness:
  "denyAudits (snd (evaluate (freshWorld noTenants 0 []) (RoleName ''VIEWER'') ''read''
      ''Article'' viewerContext)) = denyAudits (freshWorld noTenants 0 []) + 1
   \<and> auditLog (snd (evaluate cachedDenyWorld (RoleName ''VIEWER'') ''read'' ''Article''
        viewerContext)) = auditLog cachedDenyWorld"
proof -
  have m: "live (clock (freshWorld noTenants 0 []))
      (evalCache (freshWorld noTenants 0 [])
        (getEvalCacheKey (normalizeSubject (RoleName ''VIEWER'')) ''read'' ''Article''
          viewerContext)) = None"
    by (simp add: freshWorld_fields live_None)
  note h = cachedDenyWorld_live
  from deny_audit_on_evaluation [OF unconfigured_first_call] m
  have 1: "denyAudits (snd (evaluate (freshWorld noTenants 0 []) (RoleName ''VIEWER'') ''read''
      ''Article'' viewerContext)) = denyAudits (freshWorld noTenants 0 []) + 1"
    by simp
  from deny_audit_on_evaluation [of cachedDenyWorld "RoleName ''VIEWER''" "''read''"
      "''Article''" viewerContext] h cachedDenyWorld_replay
  have 2: "auditLog (snd (evaluate cachedDenyWorld (RoleName ''VIEWER'') ''read'' ''Article''
        viewerContext)) = auditLog cachedDenyWorld"
    by simp
  from 1 2 show ?thesis by blast
qed

text \<open>
  The second of two identical calls is answered from the evaluation cache: it returns
  the denial and writes no audit, so the audit log holds one deny audit for two denied
  calls.
\<close>

theorem deny_audit_cache_hit_counterexample:
  "fst (evaluate cachedDenyWorld (RoleName ''VIEWER'') ''read'' ''Article'' viewerContext) =
      Inr \<lparr>allowed = False, denied = True,
           reason = ''Denied by default (no allow/deny rule matched)'', matchedRuleId = None\<rparr>
   \<and> denyAudits cachedDenyWorld = 1
   \<and> denyAudits (snd (evaluate cachedDenyWorld (RoleName ''VIEWER'') ''read'' ''Article''
        viewerContext)) = 1
   \<and> auditLog (snd (evaluate cachedDenyWorld (RoleName ''VIEWER'') ''read'' ''Article''
        viewerContext)) = auditLog cachedDenyWorld"
  by (simp add: cachedDenyWorld_replay cachedDenyWorld_audits)

section \<open>Falling back to the default document\<close>

text \<open>
  Claim C6.  When the document cache answers and holds no live document for the tenant,
  \<^const>\<open>getPolicyDocument\<close> returns the hard-coded default document
  \<^const>\<open>DEFAULT_POLICY\<close> (deny by default, no rules, no roles) and no error in each of
  the three cases: the tenant is absent, the tenant has no configuration, the stored
  document has a version other than 1.  Nothing is written in these cases.
\<close>

theorem getPolicyDocument_falls_back:
  assumes "fst (redisCall w) = Inr ()"
    and "live (clock w) (docCache w (POLICY_CACHE_PREFIX @ tid)) = None"
    and "tenants w tid = None
      \<or> (\<exists>tenant. tenants w tid = Some tenant \<and> configuration tenant = None)
      \<or> (\<exists>tenant config doc. tenants w tid = Some tenant \<and>
            configuration tenant = Some config \<and> policyEngine config = Some doc \<and>
            version doc \<noteq> 1)"
  shows "getPolicyDocument w tid = (Inr DEFAULT_POLICY, snd (redisCall w))"
proof -
  from assms(1) have "redisCall w = (Inr (), snd (redisCall w))"
    by (cases "redisCall w") simp
  from this assms(2,3) show ?thesis by (rule getPolicyDocument_default)
qed

theorem getPolicyDocument_falls_back_witness:
  "getPolicyDocument (freshWorld noTenants 0 []) ''t1'' =
      (Inr \<lparr>version = 1, roles = [], rules = [], denyByDefault = True\<rparr>,
       freshWorld noTenants 0 [])
   \<and> getPolicyDocument (freshWorld bareTenant 0 []) ''t1'' =
      (Inr \<lparr>version = 1, roles = [], rules = [], denyByDefault = True\<rparr>,
       freshWorld bareTenant 0 [])
   \<and> getPolicyDocument (freshWorld (tenantWith (rulesDocument 2 [allowReadRule])) 0 [False])
        ''t1'' =
      (Inr \<lparr>version = 1, roles = [], rules = [], denyByDefault = True\<rparr>,
       freshWorld (tenantWith (rulesDocument 2 [allowReadRule])) 0 [])"
proof -
  have c: "fst (redisCall (freshWorld ts 0 [])) = Inr ()"
    "snd (redisCall (freshWorld ts 0 [])) = freshWorld ts 0 []"
    "fst (redisCall (freshWorld ts 0 [False])) = Inr ()"
    "snd (redisCall (freshWorld ts 0 [False])) = freshWorld ts 0 []" for ts
    by (simp_all add: redisCall_def freshWorld_def)
  have m: "live (clock (freshWorld ts 0 fs))
      (docCache (freshWorld ts 0 fs) (POLICY_CACHE_PREFIX @ ''t1'')) = None" for ts fs
    by (simp add: freshWorld_fields live_None)
  have 1: "tenants (freshWorld noTenants 0 []) ''t1'' = None"
    by (simp add: freshWorld_fields noTenants_def)
  have 2: "\<exists>tenant. tenants (freshWorld bareTenant 0 []) ''t1'' = Some tenant \<and>
      configuration tenant = None"
    by (simp add: freshWorld_fields bareTenant_def)
  have 3: "\<exists>tenant config doc.
      tenants (freshWorld (tenantWith (rulesDocument 2 [allowReadRule])) 0 [False]) ''t1''
        = Some tenant \<and>
      configuration tenant = Some config \<and> policyEngine config = Some doc \<and> version doc \<noteq> 1"
    by (simp add: freshWorld_fields tenantWith_def rulesDocument_def)
  from getPolicyDocument_falls_back [OF c(1) m, of noTenants] 1
    getPolicyDocument_falls_back [OF c(1) m, of bareTenant] 2
    getPolicyDocument_falls_back [OF c(3) m,
      of "tenantWith (rulesDocument 2 [allowReadRule])"] 3
  show ?thesis by (simp add: c DEFAULT_POLICY_def)
qed

section \<open>Updating the policy document\<close>

text \<open>
  Claim C7.  \<^const>\<open>updatePolicyDocument\<close> fails with \<open>TenantNotFound\<close> (the error
  \<^verbatim>\<open>Tenant not found\<close>) when the tenant does not exist, and leaves the world as it
  was: no configuration write, no cache invalidation, no audit write.  When the tenant
  exists and the call returns success, the policy section of the tenant configuration
  is the new document and the other settings are kept, the document-cache entry of the
  tenant is deleted, and the audit log has one more entry, an
  \<^verbatim>\<open>owner.policy.update\<close> record, which is not a deny audit.  With a cache that answers
  the call does return success.
\<close>

theorem updatePolicyDocument_effects:
  "(tenants w tid = None \<longrightarrow>
      updatePolicyDocument w tid policy actorId = (Inl TenantNotFound, w))
   \<and> (\<forall>tenant w'. tenants w tid = Some tenant \<and>
        updatePolicyDocument w tid policy actorId = (Inr (), w') \<longrightarrow>
        tenants w' = (tenants w)(tid \<mapsto> tenant\<lparr>configuration := Some
          (case configuration tenant of
             None \<Rightarrow> \<lparr>policyEngine = Some policy, otherSettings = []\<rparr>
           | Some old \<Rightarrow> old\<lparr>policyEngine := Some policy\<rparr>)\<rparr>)
        \<and> docCache w' = (docCache w)(POLICY_CACHE_PREFIX @ tid := None)
        \<and> evalCache w' = evalCache w
        \<and> auditLog w' = auditLog w @
            [\<lparr>audit_actorId = Some actorId, audit_actorUserId = None,
              audit_action = ''owner.policy.update'', audit_resource = ''Policy'',
              audit_payload = UpdatePayload tid (version policy)\<rparr>]
        \<and> denyAudits w' = denyAudits w)
   \<and> (\<forall>tenant. tenants w tid = Some tenant \<and> redisFaults w = [] \<longrightarrow>
        fst (updatePolicyDocument w tid policy actorId) = Inr ())"
proof (intro conjI allI impI)
  assume "tenants w tid = None"
  then show "updatePolicyDocument w tid policy actorId = (Inl TenantNotFound, w)"
    by (simp add: updatePolicyDocument_def)
next
  fix tenant
  assume "tenants w tid = Some tenant \<and> redisFaults w = []"
  then show "fst (updatePolicyDocument w tid policy actorId) = Inr ()"
    by (simp add: updatePolicyDocument_def Let_def invalidatePolicyCache_def redisDelDoc_ok
        await_Inr logAction_def)
next
  fix tenant w'
  assume a: "tenants w tid = Some tenant \<and>
    updatePolicyDocument w tid policy actorId = (Inr (), w')"
  let ?w1 = "w\<lparr>tenants := (tenants w)(tid \<mapsto> tenant\<lparr>configuration := Some
          (case configuration tenant of
             None \<Rightarrow> \<lparr>policyEngine = Some policy, otherSettings = []\<rparr>
           | Some old \<Rightarrow> old\<lparr>policyEngine := Some policy\<rparr>)\<rparr>)\<rparr>"
  from a obtain u w2 where
    d: "redisDelDoc ?w1 (POLICY_CACHE_PREFIX @ tid) = (Inr u, w2)"
    and l: "logAction w2
        \<lparr>audit_actorId = Some actorId, audit_actorUserId = None,
         audit_action = ''owner.policy.update'', audit_resource = ''Policy'',
         audit_payload = UpdatePayload tid (version policy)\<rparr> = (Inr (), w')"
    unfolding updatePolicyDocument_def Let_def invalidatePolicyCache_def
    by (auto simp: await_Inr_iff)
  from d obtain u' w0 where c: "redisCall ?w1 = (Inr u', w0)"
    and w2: "w2 = w0\<lparr>docCache := (docCache w0)(POLICY_CACHE_PREFIX @ tid := None)\<rparr>"
    unfolding redisDelDoc_def await_Inr_iff by auto
  note f = redisCall_result_frame [OF c]
  from l have w': "w' = w2\<lparr>auditLog := auditLog w2 @
        [\<lparr>audit_actorId = Some actorId, audit_actorUserId = None,
         audit_action = ''owner.policy.update'', audit_resource = ''Policy'',
         audit_payload = UpdatePayload tid (version policy)\<rparr>]\<rparr>"
    by (simp add: logAction_def)
  show "tenants w' = (tenants w)(tid \<mapsto> tenant\<lparr>configuration := Some
          (case configuration tenant of
             None \<Rightarrow> \<lparr>policyEngine = Some policy, otherSettings = []\<rparr>
           | Some old \<Rightarrow> old\<lparr>policyEngine := Some policy\<rparr>)\<rparr>)"
    unfolding w' w2 using f(1) by simp
  show "docCache w' = (docCache w)(POLICY_CACHE_PREFIX @ tid := None)"
    unfolding w' w2 using f(2) by simp
  show "evalCache w' = evalCache w"
    unfolding w' w2 using f(3) by simp
  show "auditLog w' = auditLog w @
            [\<lparr>audit_actorId = Some actorId, audit_actorUserId = None,
              audit_action = ''owner.policy.update'', audit_resource = ''Policy'',
              audit_payload = UpdatePayload tid (version policy)\<rparr>]"
    unfolding w' w2 using f(4) by simp
  show "denyAudits w' = denyAudits w"
    unfolding w' w2 using f(4) by (simp add: denyAudits_def)
qed

theorem updatePolicyDocument_effects_witness:
  "updatePolicyDocument (freshWorld noTenants 0 []) ''t1'' (rulesDocument 1 [denyReadRule]) 7 =
      (Inl TenantNotFound, freshWorld noTenants 0 [])
   \<and> docCache
        (snd (getPolicyDocument (freshWorld (tenantWith (rulesDocument 1 [allowReadRule])) 0 [])
          ''t1'')) ''policy:doc:t1'' =
      Some (rulesDocument 1 [allowReadRule], 300000)
   \<and> fst (updatePolicyDocument
        (snd (getPolicyDocument (freshWorld (tenantWith (rulesDocument 1 [allowReadRule])) 0 [])
          ''t1'')) ''t1'' (rulesDocument 1 [denyReadRule]) 7) = Inr ()
   \<and> docCache (snd (updatePolicyDocument
        (snd (getPolicyDocument (freshWorld (tenantWith (rulesDocument 1 [allowReadRule])) 0 [])
          ''t1'')) ''t1'' (rulesDocument 1 [denyReadRule]) 7)) ''policy:doc:t1'' = None
   \<and> tenants (snd (updatePolicyDocument
        (snd (getPolicyDocument (freshWorld (tenantWith (rulesDocument 1 [allowReadRule])) 0 [])
          ''t1'')) ''t1'' (rulesDocument 1 [denyReadRule]) 7)) ''t1'' =
      Some \<lparr>configuration =
        Some \<lparr>policyEngine = Some (rulesDocument 1 [denyReadRule]), otherSettings = []\<rparr>\<rparr>
   \<and> auditLog (snd (updatePolicyDocument
        (snd (getPolicyDocument (freshWorld (tenantWith (rulesDocument 1 [allowReadRule])) 0 [])
          ''t1'')) ''t1'' (rulesDocument 1 [denyReadRule]) 7)) =
      [\<lparr>audit_actorId = Some 7, audit_actorUserId = None,
        audit_action = ''owner.policy.update'', audit_resource = ''Policy'',
        audit_payload = UpdatePayload ''t1'' 1\<rparr>]"
proof -
  let ?old = "rulesDocument 1 [allowReadRule]"
  let ?new = "rulesDocument 1 [denyReadRule]"
  let ?w0 = "freshWorld (tenantWith ?old) 0 []"
  let ?w1 = "?w0\<lparr>docCache := (docCache ?w0)(POLICY_CACHE_PREFIX @ ''t1'' \<mapsto>
      (?old, clock ?w0 + CACHE_TTL * 1000))\<rparr>"
  let ?tenant = "\<lparr>configuration = Some \<lparr>policyEngine = Some ?old, otherSettings = []\<rparr>\<rparr>"
  have g: "getPolicyDocument ?w0 ''t1'' = (Inr ?old, ?w1)"
    by (rule getPolicyDocument_load [where tenant = ?tenant
          and config = "\<lparr>policyEngine = Some ?old, otherSettings = []\<rparr>"])
      (simp_all add: freshWorld_fields live_None tenantWith_def rulesDocument_def)
  have w1: "snd (getPolicyDocument ?w0 ''t1'') = ?w1" by (simp add: g)
  have f: "redisFaults ?w1 = []" "tenants ?w1 ''t1'' = Some ?tenant" "auditLog ?w1 = []"
    "docCache ?w1 ''policy:doc:t1'' = Some (?old, 300000)"
    by (simp_all add: freshWorld_fields tenantWith_def POLICY_CACHE_PREFIX_def CACHE_TTL_def)
  note t = updatePolicyDocument_effects [of _ "''t1''" ?new 7]
  from t [of "freshWorld noTenants 0 []"]
  have 1: "updatePolicyDocument (freshWorld noTenants 0 []) ''t1'' ?new 7 =
      (Inl TenantNotFound, freshWorld noTenants 0 [])"
    by (simp add: freshWorld_fields noTenants_def)
  from t [of ?w1] f(1,2)
  have 2: "fst (updatePolicyDocument ?w1 ''t1'' ?new 7) = Inr ()"
    by blast
  then have e: "updatePolicyDocument ?w1 ''t1'' ?new 7 =
      (Inr (), snd (updatePolicyDocument ?w1 ''t1'' ?new 7))"
    by (cases "updatePolicyDocument ?w1 ''t1'' ?new 7") simp
  from t [of ?w1] f(2) e
  have 3: "tenants (snd (updatePolicyDocument ?w1 ''t1'' ?new 7)) =
        (tenants ?w1)(''t1'' \<mapsto> ?tenant\<lparr>configuration := Some
          (case configuration ?tenant of
             None \<Rightarrow> \<lparr>policyEngine = Some ?new, otherSettings = []\<rparr>
           | Some old \<Rightarrow> old\<lparr>policyEngine := Some ?new\<rparr>)\<rparr>)"
    and 4: "docCache (snd (updatePolicyDocument ?w1 ''t1'' ?new 7)) =
        (docCache ?w1)(POLICY_CACHE_PREFIX @ ''t1'' := None)"
    and 5: "auditLog (snd (updatePolicyDocument ?w1 ''t1'' ?new 7)) = auditLog ?w1 @
            [\<lparr>audit_actorId = Some 7, audit_actorUserId = None,
              audit_action = ''owner.policy.update'', audit_resource = ''Policy'',
              audit_payload = UpdatePayload ''t1'' (version ?new)\<rparr>]"
    by blast+
  have t3: "tenants (snd (updatePolicyDocument ?w1 ''t1'' ?new 7)) ''t1'' =
      Some \<lparr>configuration = Some \<lparr>policyEngine = Some ?new, otherSettings = []\<rparr>\<rparr>"
    unfolding 3 by simp
  have c4: "docCache (snd (updatePolicyDocument ?w1 ''t1'' ?new 7)) ''policy:doc:t1'' = None"
    unfolding 4 by (simp add: POLICY_CACHE_PREFIX_def)
  have a5: "auditLog (snd (updatePolicyDocument ?w1 ''t1'' ?new 7)) =
      [\<lparr>audit_actorId = Some 7, audit_actorUserId = None,
        audit_action = ''owner.policy.update'', audit_resource = ''Policy'',
        audit_payload = UpdatePayload ''t1'' 1\<rparr>]"
    unfolding 5 f(3) by (simp add: rulesDocument_def)
  show ?thesis
    unfolding w1 by (intro conjI 1 f(4) 2 c4 t3 a5)
qed

section \<open>Cache failures\<close>




section \<open>RBAC scopes\<close>

text \<open>
  Claim C9.  For a role subject whose matching permission has effect allow, the RBAC
  evaluator decides by scope: with scope \<^verbatim>\<open>own\<close> or \<^verbatim>\<open>workspace\<close> the result is allowed
  when the context has a workspace id and denied when it has none, alike for both
  scopes; with scope \<^verbatim>\<open>all\<close> it is allowed; with any other scope it is no opinion,
  both flags false.
\<close>

theorem rbac_scope_decision:
  assumes "subject_type subject = ''role''"
    and "map_of (roles policyDoc) (subject_id subject) = Some rolePermissions"
    and "find (\<lambda>p. perm_resource p = resource) (permissions rolePermissions) = Some permission"
    and "action \<in> set (perm_actions permission)"
    and "perm_effect permission = Allow"
  shows
    "\<exists>res. evaluateRBAC subject action resource context policyDoc = Inr res
     \<and> (perm_scope permission = ''own'' \<or> perm_scope permission = ''workspace'' \<longrightarrow>
        (workspaceId context \<noteq> None \<longrightarrow> allowed res \<and> \<not> denied res) \<and>
        (workspaceId context = None \<longrightarrow> \<not> allowed res \<and> denied res))
     \<and> (perm_scope permission = ''all'' \<longrightarrow> allowed res \<and> \<not> denied res)
     \<and> (perm_scope permission \<noteq> ''own'' \<and> perm_scope permission \<noteq> ''workspace'' \<and>
        perm_scope permission \<noteq> ''all'' \<longrightarrow>
           res =
             \<lparr>allowed = False, denied = False,
              reason = ''Unknown scope: '' @ perm_scope permission, matchedRuleId = None\<rparr>)"
  using assms by (simp add: evaluateRBAC_def)

theorem rbac_scope_decision_witness:
  "(\<exists>res. evaluateRBAC viewerSubject ''read'' ''Article'' viewerContext
        (viewerDocument Allow ''own'' []) = Inr res \<and> \<not> allowed res \<and> denied res)
   \<and> (\<exists>res. evaluateRBAC viewerSubject ''read'' ''Article'' viewerContext
        (viewerDocument Allow ''workspace'' []) = Inr res \<and> \<not> allowed res \<and> denied res)
   \<and> (\<exists>res. evaluateRBAC viewerSubject ''read'' ''Article''
        (viewerContext\<lparr>workspaceId := Some ''ws1''\<rparr>) (viewerDocument Allow ''own'' [])
        = Inr res \<and> allowed res \<and> \<not> denied res)
   \<and> (\<exists>res. evaluateRBAC viewerSubject ''read'' ''Article'' viewerContext
        (viewerDocument Allow ''all'' []) = Inr res \<and> allowed res \<and> \<not> denied res)
   \<and> evaluateRBAC viewerSubject ''read'' ''Article'' viewerContext
        (viewerDocument Allow ''team'' []) =
       Inr \<lparr>allowed = False, denied = False, reason = ''Unknown scope: team'',
            matchedRuleId = None\<rparr>"
proof -
  have h1: "subject_type viewerSubject = ''role''"
    by (simp add: viewerSubject_def)
  have h2: "map_of (roles (viewerDocument Allow sc [])) (subject_id viewerSubject) =
      Some \<lparr>permissions = [readPermission Allow sc]\<rparr>" for sc
    by (simp add: viewerDocument_def viewerSubject_def)
  have h3: "find (\<lambda>p. perm_resource p = ''Article'')
      (permissions \<lparr>permissions = [readPermission Allow sc]\<rparr>) = Some (readPermission Allow sc)"
    for sc
    by (simp add: readPermission_def)
  have h4: "''read'' \<in> set (perm_actions (readPermission Allow sc))" for sc
    by (simp add: readPermission_def)
  have h5: "perm_effect (readPermission Allow sc) = Allow" for sc
    by (simp add: readPermission_def)
  have sc: "perm_scope (readPermission Allow sc) = sc" for sc
    by (simp add: readPermission_def)
  have ws: "workspaceId viewerContext = None"
    by (simp add: viewerContext_def)
  note t = rbac_scope_decision [OF h1 h2 h3 h4 h5]
  from t [of viewerContext "''own''"]
  have 1: "\<exists>res. evaluateRBAC viewerSubject ''read'' ''Article'' viewerContext
        (viewerDocument Allow ''own'' []) = Inr res \<and> \<not> allowed res \<and> denied res"
    by (simp add: sc ws)
  from t [of viewerContext "''workspace''"]
  have 2: "\<exists>res. evaluateRBAC viewerSubject ''read'' ''Article'' viewerContext
        (viewerDocument Allow ''workspace'' []) = Inr res \<and> \<not> allowed res \<and> denied res"
    by (simp add: sc ws)
  from t [of "viewerContext\<lparr>workspaceId := Some ''ws1''\<rparr>" "''own''"]
  have 3: "\<exists>res. evaluateRBAC viewerSubject ''read'' ''Article''
        (viewerContext\<lparr>workspaceId := Some ''ws1''\<rparr>) (viewerDocument Allow ''own'' [])
        = Inr res \<and> allowed res \<and> \<not> denied res"
    by (simp add: sc)
  from t [of viewerContext "''all''"]
  have 4: "\<exists>res. evaluateRBAC viewerSubject ''read'' ''Article'' viewerContext
        (viewerDocument Allow ''all'' []) = Inr res \<and> allowed res \<and> \<not> denied res"
    by (simp add: sc)
  from t [of viewerContext "''team''"]
  have 5: "evaluateRBAC viewerSubject ''read'' ''Article'' viewerContext
        (viewerDocument Allow ''team'' []) =
       Inr \<lparr>allowed = False, denied = False, reason = ''Unknown scope: team'',
            matchedRuleId = None\<rparr>"
    by (simp add: sc)
  from 1 2 3 4 5 show ?thesis by blast
qed

section \<open>The evaluation-cache key\<close>

text \<open>
  Claim C10.  The evaluation-cache key is a function of the tenant id, the subject type
  and id, the action, the resource and the workspace id (or \<^verbatim>\<open>global\<close>) only: two
  contexts that agree on the tenant id and on the workspace scope give the same key,
  whatever their user ids, request ids and other fields are.  So a decision computed
  and cached for the first context is returned verbatim for the second one, without any
  evaluation and without any change of the world, and this at any time before the
  entry expires, 60 seconds after the evaluation that wrote it.
\<close>

theorem eval_cache_key_ignores_user:
  assumes "tenantId c1 = tenantId c2"
    and "(case workspaceId c1 of Some ws \<Rightarrow> ws | None \<Rightarrow> ''global'') =
         (case workspaceId c2 of Some ws \<Rightarrow> ws | None \<Rightarrow> ''global'')"
  shows "getEvalCacheKey (normalizeSubject subject) action resource c1 =
      getEvalCacheKey (normalizeSubject subject) action resource c2
    \<and> (\<forall>w res. redisFaults w = [] \<and> fst (evaluate w subject action resource c1) = Inr res
         \<longrightarrow> evaluate (snd (evaluate w subject action resource c1)) subject action resource c2
           = (Inr res, snd (evaluate w subject action resource c1)))
    \<and> (\<forall>w res t. redisFaults w = [] \<and>
          live (clock w)
            (evalCache w (getEvalCacheKey (normalizeSubject subject) action resource c1))
            = None \<and>
          fst (evaluate w subject action resource c1) = Inr res \<and>
          t < clock w + 60 * 1000
         \<longrightarrow> fst (evaluate ((snd (evaluate w subject action resource c1))\<lparr>clock := t\<rparr>)
                subject action resource c2) = Inr res)"
proof (intro conjI allI impI)
  show k: "getEvalCacheKey (normalizeSubject subject) action resource c1 =
      getEvalCacheKey (normalizeSubject subject) action resource c2"
    using assms by (rule getEvalCacheKey_context)
  {
    fix w res
    assume a: "redisFaults w = [] \<and> fst (evaluate w subject action resource c1) = Inr res"
    then have e: "evaluate w subject action resource c1 =
        (Inr res, snd (evaluate w subject action resource c1))"
      by (cases "evaluate w subject action resource c1") simp
    from evaluate_replay [OF _ e] a
    have "redisFaults (snd (evaluate w subject action resource c1)) = []"
      and "live (clock (snd (evaluate w subject action resource c1)))
        (evalCache (snd (evaluate w subject action resource c1))
          (getEvalCacheKey (normalizeSubject subject) action resource c2)) = Some res"
      unfolding k by simp_all
    then show "evaluate (snd (evaluate w subject action resource c1)) subject action resource c2
             = (Inr res, snd (evaluate w subject action resource c1))"
      by (rule evaluate_hit)
  }
  {
    fix w res t
    assume a: "redisFaults w = [] \<and>
          live (clock w)
            (evalCache w (getEvalCacheKey (normalizeSubject subject) action resource c1))
            = None \<and>
          fst (evaluate w subject action resource c1) = Inr res \<and>
          t < clock w + 60 * 1000"
    let ?w' = "snd (evaluate w subject action resource c1)"
    from a have e: "evaluate w subject action resource c1 = (Inr res, ?w')"
      by (cases "evaluate w subject action resource c1") simp
    from evaluate_miss_entry [OF _ _ e] a
    have "redisFaults ?w' = []"
      and "evalCache ?w' (getEvalCacheKey (normalizeSubject subject) action resource c2)
        = Some (res, clock w + 60 * 1000)"
      unfolding k by simp_all
    with a have "redisFaults (?w'\<lparr>clock := t\<rparr>) = []"
      and "live (clock (?w'\<lparr>clock := t\<rparr>))
        (evalCache (?w'\<lparr>clock := t\<rparr>)
          (getEvalCacheKey (normalizeSubject subject) action resource c2)) = Some res"
      by (simp_all add: live_def)
    from evaluate_hit [OF this]
    show "fst (evaluate (?w'\<lparr>clock := t\<rparr>) subject action resource c2) = Inr res"
      by simp
  }
qed

theorem eval_cache_key_ignores_user_witness:
  "getEvalCacheKey viewerSubject ''read'' ''Article'' viewerContext =
      ''policy:eval:t1:role:VIEWER:read:Article:global''
   \<and> getEvalCacheKey viewerSubject ''read'' ''Article'' otherUserContext =
      ''policy:eval:t1:role:VIEWER:read:Article:global''
   \<and> fst (evaluate (freshWorld (tenantWith (rulesDocument 1 [userOneRule])) 0 [])
        (RoleName ''VIEWER'') ''read'' ''Article'' viewerContext) =
      Inr \<lparr>allowed = True, denied = False, reason = ''Allowed by rule user-one'',
           matchedRuleId = Some ''user-one''\<rparr>
   \<and> fst (evaluate (freshWorld (tenantWith (rulesDocument 1 [userOneRule])) 0 [])
        (RoleName ''VIEWER'') ''read'' ''Article'' otherUserContext) =
      Inr \<lparr>allowed = False, denied = True,
           reason = ''Denied by default (no allow/deny rule matched)'', matchedRuleId = None\<rparr>
   \<and> fst (evaluate
        (snd (evaluate (freshWorld (tenantWith (rulesDocument 1 [userOneRule])) 0 [])
          (RoleName ''VIEWER'') ''read'' ''Article'' viewerContext))
        (RoleName ''VIEWER'') ''read'' ''Article'' otherUserContext) =
      Inr \<lparr>allowed = True, denied = False, reason = ''Allowed by rule user-one'',
           matchedRuleId = Some ''user-one''\<rparr>
   \<and> fst (evaluate
        ((snd (evaluate (freshWorld (tenantWith (rulesDocument 1 [userOneRule])) 0 [])
          (RoleName ''VIEWER'') ''read'' ''Article'' viewerContext))\<lparr>clock := 59999\<rparr>)
        (RoleName ''VIEWER'') ''read'' ''Article'' otherUserContext) =
      Inr \<lparr>allowed = True, denied = False, reason = ''Allowed by rule user-one'',
           matchedRuleId = Some ''user-one''\<rparr>"
proof -
  let ?doc = "rulesDocument 1 [userOneRule]"
  let ?w = "freshWorld (tenantWith ?doc) 0 []"
  have k1: "getEvalCacheKey viewerSubject ''read'' ''Article'' viewerContext =
      ''policy:eval:t1:role:VIEWER:read:Article:global''"
    by (simp add: getEvalCacheKey_def EVAL_CACHE_PREFIX_def viewerSubject_def viewerContext_def)
  have h1: "tenantId viewerContext = tenantId otherUserContext"
    by (simp add: viewer_tenant)
  have h2: "(case workspaceId viewerContext of Some ws \<Rightarrow> ws | None \<Rightarrow> ''global'') =
      (case workspaceId otherUserContext of Some ws \<Rightarrow> ws | None \<Rightarrow> ''global'')"
    by (simp add: viewerContext_def otherUserContext_def)
  note t = eval_cache_key_ignores_user [OF h1 h2, of "RoleName ''VIEWER''" "''read''"
      "''Article''"]
  have k2: "getEvalCacheKey viewerSubject ''read'' ''Article'' otherUserContext =
      ''policy:eval:t1:role:VIEWER:read:Article:global''"
    using t k1 by (simp add: viewer_normalized)
  have v: "version ?doc = 1" by (simp add: rulesDocument_def)
  let ?rbac = "\<lparr>allowed = False, denied = False,
      reason = ''Role VIEWER not found in policy'', matchedRuleId = None\<rparr>"
  have rbac: "evaluateRBAC viewerSubject ''read'' ''Article'' c ?doc = Inr ?rbac" for c
    by (simp add: evaluateRBAC_def rulesDocument_def viewerSubject_def
        objectPrototypeKeys_def)
  have abac1: "evaluateABAC 0 viewerSubject ''read'' ''Article'' viewerContext ?doc =
      \<lparr>allowed = True, denied = False, reason = ''Allowed by rule user-one'',
       matchedRuleId = Some ''user-one''\<rparr>"
    by (simp add: evaluateABAC_def matchingRules_def ruleMatches_def rulesDocument_def
        userOneRule_def viewerContext_def)
  have abac2: "evaluateABAC 0 viewerSubject ''read'' ''Article'' otherUserContext ?doc =
      \<lparr>allowed = False, denied = False, reason = ''No ABAC rules matched'',
       matchedRuleId = None\<rparr>"
    by (simp add: evaluateABAC_def matchingRules_def ruleMatches_def rulesDocument_def
        userOneRule_def otherUserContext_def)
  have e1: "fst (evaluate ?w (RoleName ''VIEWER'') ''read'' ''Article'' viewerContext) =
      Inr (verdict ?rbac
        (evaluateABAC (clock ?w) (normalizeSubject (RoleName ''VIEWER'')) ''read'' ''Article''
          viewerContext ?doc))"
    by (rule evaluate_miss_result)
      (simp_all add: freshWorld_fields live_None viewer_tenant fresh_configured v
        viewer_normalized rbac)
  have e2: "fst (evaluate ?w (RoleName ''VIEWER'') ''read'' ''Article'' otherUserContext) =
      Inr (verdict ?rbac
        (evaluateABAC (clock ?w) (normalizeSubject (RoleName ''VIEWER'')) ''read'' ''Article''
          otherUserContext ?doc))"
    by (rule evaluate_miss_result)
      (simp_all add: freshWorld_fields live_None viewer_tenant fresh_configured v
        viewer_normalized rbac)
  have r1: "fst (evaluate ?w (RoleName ''VIEWER'') ''read'' ''Article'' viewerContext) =
      Inr \<lparr>allowed = True, denied = False, reason = ''Allowed by rule user-one'',
           matchedRuleId = Some ''user-one''\<rparr>"
    unfolding e1 by (simp add: verdict_def viewer_normalized freshWorld_fields abac1)
  have r2: "fst (evaluate ?w (RoleName ''VIEWER'') ''read'' ''Article'' otherUserContext) =
      Inr \<lparr>allowed = False, denied = True,
           reason = ''Denied by default (no allow/deny rule matched)'', matchedRuleId = None\<rparr>"
    unfolding e2 by (simp add: verdict_def viewer_normalized freshWorld_fields abac2)
  from t r1 have r3: "fst (evaluate
        (snd (evaluate ?w (RoleName ''VIEWER'') ''read'' ''Article'' viewerContext))
        (RoleName ''VIEWER'') ''read'' ''Article'' otherUserContext) =
      Inr \<lparr>allowed = True, denied = False, reason = ''Allowed by rule user-one'',
           matchedRuleId = Some ''user-one''\<rparr>"
    by (simp add: freshWorld_fields)
  have m: "live (clock ?w)
      (evalCache ?w (getEvalCacheKey (normalizeSubject (RoleName ''VIEWER'')) ''read''
        ''Article'' viewerContext)) = None"
    by (simp add: freshWorld_fields live_None)
  from t r1 m have r4: "fst (evaluate
        ((snd (evaluate ?w (RoleName ''VIEWER'') ''read'' ''Article'' viewerContext))
          \<lparr>clock := 59999\<rparr>)
        (RoleName ''VIEWER'') ''read'' ''Article'' otherUserContext) =
      Inr \<lparr>allowed = True, denied = False, reason = ''Allowed by rule user-one'',
           matchedRuleId = Some ''user-one''\<rparr>"
    by (simp add: freshWorld_fields)
  from k1 k2 r1 r2 r3 r4 show ?thesis by blast
qed

end
